theory Spec2Isabelle
  imports Main "HOL-Library.AList" "HOL-Library.Sublist"
begin

section \<open>Python values, dictionaries and exceptions\<close>

text \<open>
  The values that travel through \<^verbatim>\<open>server.py\<close>: tool arguments, the keyword arguments of
  an SDK call, the SDK's response and the dictionary a tool returns. A dictionary is an
  association list in insertion order; \<open>AList.update\<close> is \<^verbatim>\<open>d[k] = v\<close> and \<open>map_of\<close> the
  lookup.
\<close>

datatype pyval =
    PyNone
  | PyBool bool
  | PyInt int
  | PyStr string
  | PyList "pyval list"
  | PyDict "(string \<times> pyval) list"

type_synonym dict = "(string \<times> pyval) list"

text \<open>Python truth value testing, as used by \<^verbatim>\<open>if x:\<close>, \<^verbatim>\<open>not x\<close> and \<^verbatim>\<open>x or y\<close>.\<close>

fun truthy :: "pyval \<Rightarrow> bool" where
  "truthy PyNone = False"
| "truthy (PyBool b) = b"
| "truthy (PyInt i) = (i \<noteq> 0)"
| "truthy (PyStr s) = (s \<noteq> [])"
| "truthy (PyList xs) = (xs \<noteq> [])"
| "truthy (PyDict d) = (d \<noteq> [])"

text \<open>
  A tool argument declared \<^verbatim>\<open>x: str = Field(default=None)\<close> is either left out by the
  caller (the default \<^verbatim>\<open>None\<close>) or a string; likewise for \<^verbatim>\<open>List[str]\<close> and \<^verbatim>\<open>int\<close>.
  \<open>None\<close> of the option type is the omitted argument.
\<close>

definition str_arg :: "string option \<Rightarrow> pyval" where
  "str_arg a = (case a of None \<Rightarrow> PyNone | Some s \<Rightarrow> PyStr s)"

definition list_arg :: "string list option \<Rightarrow> pyval" where
  "list_arg a = (case a of None \<Rightarrow> PyNone | Some xs \<Rightarrow> PyList (map PyStr xs))"

definition int_arg :: "int option \<Rightarrow> pyval" where
  "int_arg a = (case a of None \<Rightarrow> PyNone | Some i \<Rightarrow> PyInt i)"

text \<open>\<^verbatim>\<open>d.get(k, default)\<close>; \<^verbatim>\<open>d.get(k)\<close> is \<open>dict_get d k PyNone\<close>.\<close>

definition dict_get :: "dict \<Rightarrow> string \<Rightarrow> pyval \<Rightarrow> pyval" where
  "dict_get d k dflt = (case map_of d k of Some v \<Rightarrow> v | None \<Rightarrow> dflt)"

text \<open>
  \<^verbatim>\<open>a or b\<close> for an optional string \<open>a\<close> and a string \<open>b\<close>: \<open>a\<close> when it is truthy,
  \<open>b\<close> otherwise. \<^verbatim>\<open>environ.get(k, default)\<close> reads the process environment.
\<close>

definition or_else :: "string option \<Rightarrow> string \<Rightarrow> string" where
  "or_else a b = (case a of Some s \<Rightarrow> if truthy (PyStr s) then s else b | None \<Rightarrow> b)"

definition environ_get :: "(string \<rightharpoonup> string) \<Rightarrow> string \<Rightarrow> string \<Rightarrow> string" where
  "environ_get en k dflt = (case en k of Some v \<Rightarrow> v | None \<Rightarrow> dflt)"

text \<open>
  Exceptions: \<open>ClientError\<close> is the repository's own \<^verbatim>\<open>errors.ClientError\<close>; \<open>RawException\<close>
  is any other exception (class name and \<^verbatim>\<open>str(e)\<close>), such as those raised by the SDK.
\<close>

datatype py_exception =
    ClientError string
  | RawException string string

fun exc_str :: "py_exception \<Rightarrow> string" where
  "exc_str (ClientError m) = m"
| "exc_str (RawException cls m) = m"

fun is_ClientError :: "py_exception \<Rightarrow> bool" where
  "is_ClientError (ClientError m) = True"
| "is_ClientError (RawException cls m) = False"

section \<open>The environment: process environment variables and the AWS SDK\<close>

text \<open>
  One outbound AWS API call: the region of the client that makes it, the client method and
  the keyword arguments \<^verbatim>\<open>**params\<close>.
\<close>

record api_call =
  call_region :: string
  call_op :: string
  call_params :: dict

text \<open>
  The SDK is an opaque collaborator. \<open>create_client region ua\<close> is
  \<^verbatim>\<open>boto3.Session(region_name=region)\<close> followed by
  \<^verbatim>\<open>session.client('elasticbeanstalk', config=Config(user_agent_extra=ua))\<close>: the exception
  it raises, if any. \<open>invoke history c\<close> is the outcome of the API call \<open>c\<close> made after the
  calls \<open>history\<close>: an exception or the response dictionary.
\<close>

record sdk =
  create_client :: "string \<Rightarrow> string \<Rightarrow> py_exception option"
  invoke :: "api_call list \<Rightarrow> api_call \<Rightarrow> py_exception + dict"

record env =
  environ :: "string \<rightharpoonup> string"
  aws :: sdk

text \<open>
  What a call leaves behind: the regions sessions were created with, the outbound API calls
  (oldest first), the lines given to \<^verbatim>\<open>logger.error\<close> and the messages given to
  \<^verbatim>\<open>ctx.error\<close>.
\<close>

record state =
  sessions :: "string list"
  calls :: "api_call list"
  logged :: "string list"
  ctx_errors :: "string list"

record client =
  client_region :: string
  client_user_agent_extra :: string

text \<open>The calls made between an earlier state and a later one.\<close>

definition issued :: "state \<Rightarrow> state \<Rightarrow> api_call list" where
  "issued st st' = drop (length (calls st)) (calls st')"

section \<open>Parts of the repository outside \<^verbatim>\<open>server.py\<close>\<close>

text \<open>
  Modelled from the spec: \<^verbatim>\<open>consts.DEFAULT_REGION\<close> and \<^verbatim>\<open>consts.USER_AGENT_EXTRA\<close> are not
  part of \<^verbatim>\<open>server.py\<close>. The spec speaks of "the hardcoded default region"; the docstring of
  \<^verbatim>\<open>get_beanstalk_client\<close> names it \<^verbatim>\<open>'us-east-1'\<close>. No theorem below depends on the values.
\<close>

definition DEFAULT_REGION :: string where
  "DEFAULT_REGION = ''us-east-1''"

definition USER_AGENT_EXTRA :: string where
  "USER_AGENT_EXTRA = ''awslabs/mcp/elasticbeanstalk-mcp-server''"

text \<open>
  Modelled from the spec: \<^verbatim>\<open>errors.handle_aws_api_error\<close> is missing. The spec: SDK exceptions
  are "translated into one uniform client-error type carrying a human-readable message". The
  wording of the message is not fixed by the spec; the text of the exception stands for it.
\<close>

definition handle_aws_api_error :: "py_exception \<Rightarrow> py_exception" where
  "handle_aws_api_error e = ClientError (exc_str e)"

text \<open>
  Modelled from the spec: the decorator \<^verbatim>\<open>common.handle_exceptions\<close> is missing. The spec:
  exceptions "are caught at the client-construction boundary and at each tool boundary,
  translated into one uniform client-error type carrying a human-readable message, and logged
  before re-raise/report to the caller". A result that is not an exception passes through.
\<close>

definition handle_exceptions ::
  "(state \<Rightarrow> (py_exception + dict) \<times> state) \<Rightarrow> state \<Rightarrow> (py_exception + dict) \<times> state" where
  "handle_exceptions func st =
     (case func st of
        (Inr r, st1) \<Rightarrow> (Inr r, st1)
      | (Inl e, st1) \<Rightarrow>
          (let error = handle_aws_api_error e
           in (Inl error, st1\<lparr>logged := logged st1 @ [exc_str error]\<rparr>)))"

section \<open>\<^verbatim>\<open>server.py\<close>\<close>

subsection \<open>Client construction\<close>

text \<open>A client method call \<^verbatim>\<open>client.op(**params)\<close>: recorded, then answered by the SDK.\<close>

definition client_call ::
  "env \<Rightarrow> client \<Rightarrow> string \<Rightarrow> dict \<Rightarrow> state \<Rightarrow> (py_exception + dict) \<times> state" where
  "client_call e c op params st =
     (let call = \<lparr>call_region = client_region c, call_op = op, call_params = params\<rparr>
      in (invoke (aws e) (calls st) call, st\<lparr>calls := calls st @ [call]\<rparr>))"

text \<open>
  \<^verbatim>\<open>region = region_name or environ.get('AWS_REGION', DEFAULT_REGION)\<close>, then the \<^verbatim>\<open>try\<close>
  block: session and client, the credential check \<^verbatim>\<open>client.describe_applications()\<close>,
  and the handler that translates, logs and raises.
\<close>

definition get_beanstalk_client ::
  "env \<Rightarrow> string option \<Rightarrow> state \<Rightarrow> (py_exception + client) \<times> state" where
  "get_beanstalk_client e region_name st =
     (let region =
            or_else region_name (environ_get (environ e) ''AWS_REGION'' DEFAULT_REGION);
          config = USER_AGENT_EXTRA;
          except = (\<lambda>ex s.
            (let error = handle_aws_api_error ex
             in (Inl error,
                 s\<lparr>logged := logged s @ [''Error creating Elastic Beanstalk client: '' @ exc_str error]\<rparr>)));
          st1 = st\<lparr>sessions := sessions st @ [region]\<rparr>
      in case create_client (aws e) region config of
           Some ex \<Rightarrow> except ex st1
         | None \<Rightarrow>
             (let c = \<lparr>client_region = region, client_user_agent_extra = config\<rparr>
              in case client_call e c ''describe_applications'' [] st1 of
                   (Inl ex, st2) \<Rightarrow> except ex st2
                 | (Inr r, st2) \<Rightarrow> (Inr c, st2)))"

subsection \<open>The four tools\<close>

text \<open>
  Each tool builds its parameter dictionary from the filters that are truthy
  (\<^verbatim>\<open>params = {}\<close>, then one \<^verbatim>\<open>if x: params[K] = x\<close> per filter); the dictionary of each
  tool is a definition of its own, used by the tool below it.
\<close>

definition describe_environments_params ::
  "string option \<Rightarrow> string list option \<Rightarrow> string list option \<Rightarrow> bool \<Rightarrow> dict" where
  "describe_environments_params application_name environment_names environment_ids
       include_deleted =
     (let params = [];
          params = (if truthy (str_arg application_name)
                    then AList.update ''ApplicationName'' (str_arg application_name) params
                    else params);
          params = (if truthy (list_arg environment_names)
                    then AList.update ''EnvironmentNames'' (list_arg environment_names) params
                    else params);
          params = (if truthy (list_arg environment_ids)
                    then AList.update ''EnvironmentIds'' (list_arg environment_ids) params
                    else params);
          params = (if truthy (PyBool include_deleted)
                    then AList.update ''IncludeDeleted'' (PyBool include_deleted) params
                    else params)
      in params)"

definition describe_environments ::
  "env \<Rightarrow> string option \<Rightarrow> string list option \<Rightarrow> string list option \<Rightarrow> bool \<Rightarrow> string option
     \<Rightarrow> state \<Rightarrow> (py_exception + dict) \<times> state" where
  "describe_environments e application_name environment_names environment_ids include_deleted
       region_name =
     handle_exceptions (\<lambda>st.
       case get_beanstalk_client e region_name st of
         (Inl ex, st1) \<Rightarrow> (Inl ex, st1)
       | (Inr c, st1) \<Rightarrow>
           (let params = describe_environments_params application_name environment_names
                           environment_ids include_deleted
            in case client_call e c ''describe_environments'' params st1 of
                 (Inl ex, st2) \<Rightarrow> (Inl ex, st2)
               | (Inr response, st2) \<Rightarrow>
                   (Inr [(''Environments'', dict_get response ''Environments'' (PyList [])),
                         (''NextToken'', dict_get response ''NextToken'' PyNone)], st2)))"

definition describe_applications_params :: "string list option \<Rightarrow> dict" where
  "describe_applications_params application_names =
     (let params = [];
          params = (if truthy (list_arg application_names)
                    then AList.update ''ApplicationNames'' (list_arg application_names) params
                    else params)
      in params)"

definition describe_applications ::
  "env \<Rightarrow> string list option \<Rightarrow> string option \<Rightarrow> state \<Rightarrow> (py_exception + dict) \<times> state" where
  "describe_applications e application_names region_name =
     handle_exceptions (\<lambda>st.
       case get_beanstalk_client e region_name st of
         (Inl ex, st1) \<Rightarrow> (Inl ex, st1)
       | (Inr c, st1) \<Rightarrow>
           (let params = describe_applications_params application_names
            in case client_call e c ''describe_applications'' params st1 of
                 (Inl ex, st2) \<Rightarrow> (Inl ex, st2)
               | (Inr response, st2) \<Rightarrow>
                   (Inr [(''Applications'', dict_get response ''Applications'' (PyList []))], st2)))"

definition describe_events_params ::
  "string option \<Rightarrow> string option \<Rightarrow> string option \<Rightarrow> string option \<Rightarrow> string option
     \<Rightarrow> int option \<Rightarrow> string option \<Rightarrow> dict" where
  "describe_events_params application_name environment_name environment_id start_time end_time
       max_records severity =
     (let params = [];
          params = (if truthy (str_arg application_name)
                    then AList.update ''ApplicationName'' (str_arg application_name) params
                    else params);
          params = (if truthy (str_arg environment_name)
                    then AList.update ''EnvironmentName'' (str_arg environment_name) params
                    else params);
          params = (if truthy (str_arg environment_id)
                    then AList.update ''EnvironmentId'' (str_arg environment_id) params
                    else params);
          params = (if truthy (str_arg start_time)
                    then AList.update ''StartTime'' (str_arg start_time) params
                    else params);
          params = (if truthy (str_arg end_time)
                    then AList.update ''EndTime'' (str_arg end_time) params
                    else params);
          params = (if truthy (int_arg max_records)
                    then AList.update ''MaxRecords'' (int_arg max_records) params
                    else params);
          params = (if truthy (str_arg severity)
                    then AList.update ''Severity'' (str_arg severity) params
                    else params)
      in params)"

definition describe_events ::
  "env \<Rightarrow> string option \<Rightarrow> string option \<Rightarrow> string option \<Rightarrow> string option \<Rightarrow> string option
     \<Rightarrow> int option \<Rightarrow> string option \<Rightarrow> string option
     \<Rightarrow> state \<Rightarrow> (py_exception + dict) \<times> state" where
  "describe_events e application_name environment_name environment_id start_time end_time
       max_records severity region_name =
     handle_exceptions (\<lambda>st.
       case get_beanstalk_client e region_name st of
         (Inl ex, st1) \<Rightarrow> (Inl ex, st1)
       | (Inr c, st1) \<Rightarrow>
           (let params = describe_events_params application_name environment_name environment_id
                           start_time end_time max_records severity
            in case client_call e c ''describe_events'' params st1 of
                 (Inl ex, st2) \<Rightarrow> (Inl ex, st2)
               | (Inr response, st2) \<Rightarrow>
                   (Inr [(''Events'', dict_get response ''Events'' (PyList [])),
                         (''NextToken'', dict_get response ''NextToken'' PyNone)], st2)))"

text \<open>
  \<^verbatim>\<open>ctx\<close> is the first argument of every tool, without a type annotation: whatever the caller
  passes. Only \<^verbatim>\<open>describe_config_settings\<close> uses it, in \<^verbatim>\<open>await ctx.error(error_msg)\<close>, so the
  model keeps it for that tool and keeps of it what that statement asks: the exception the
  call raises, if any (an \<^verbatim>\<open>AttributeError\<close> for a value without an \<^verbatim>\<open>error\<close> method); a call
  that returns has delivered the message.
\<close>

record tool_ctx =
  error_raises :: "string \<Rightarrow> py_exception option"

text \<open>
  \<^verbatim>\<open>describe_config_settings\<close> starts from \<^verbatim>\<open>{'ApplicationName': application_name}\<close> and
  adds one of the two names (\<^verbatim>\<open>if environment_name: ... elif template_name: ...\<close>). The
  check that one of them is there comes after the client is built; it reports through
  \<^verbatim>\<open>ctx.error\<close> first and raises after it.
\<close>

definition describe_config_settings_params ::
  "string \<Rightarrow> string option \<Rightarrow> string option \<Rightarrow> dict" where
  "describe_config_settings_params application_name environment_name template_name =
     (let params = [(''ApplicationName'', PyStr application_name)];
          params = (if truthy (str_arg environment_name)
                    then AList.update ''EnvironmentName'' (str_arg environment_name) params
                    else if truthy (str_arg template_name)
                    then AList.update ''TemplateName'' (str_arg template_name) params
                    else params)
      in params)"

definition describe_config_settings ::
  "env \<Rightarrow> tool_ctx \<Rightarrow> string \<Rightarrow> string option \<Rightarrow> string option \<Rightarrow> string option
     \<Rightarrow> state \<Rightarrow> (py_exception + dict) \<times> state" where
  "describe_config_settings e ctx application_name environment_name template_name region_name =
     handle_exceptions (\<lambda>st.
       case get_beanstalk_client e region_name st of
         (Inl ex, st1) \<Rightarrow> (Inl ex, st1)
       | (Inr c, st1) \<Rightarrow>
           if \<not> truthy (str_arg environment_name) \<and> \<not> truthy (str_arg template_name) then
             (let error_msg = ''Either environment_name or template_name must be provided''
              in case error_raises ctx error_msg of
                   Some ex \<Rightarrow> (Inl ex, st1)
                 | None \<Rightarrow>
                     (let st2 = st1\<lparr>ctx_errors := ctx_errors st1 @ [error_msg]\<rparr>
                      in (Inl (ClientError error_msg), st2)))
           else
             (let params = describe_config_settings_params application_name environment_name
                             template_name
              in case client_call e c ''describe_configuration_settings'' params st1 of
                   (Inl ex, st2) \<Rightarrow> (Inl ex, st2)
                 | (Inr response, st2) \<Rightarrow>
                     (Inr [(''ConfigurationSettings'',
                            dict_get response ''ConfigurationSettings'' (PyList []))], st2)))"

text \<open>Names for the region that client construction resolves and for its credential check.\<close>

abbreviation resolved_region :: "env \<Rightarrow> string option \<Rightarrow> string" where
  "resolved_region e region_name \<equiv>
     or_else region_name (environ_get (environ e) ''AWS_REGION'' DEFAULT_REGION)"

abbreviation verify_call :: "string \<Rightarrow> api_call" where
  "verify_call r \<equiv> \<lparr>call_region = r, call_op = ''describe_applications'', call_params = []\<rparr>"

abbreviation client_built :: "env \<Rightarrow> string option \<Rightarrow> bool" where
  "client_built e region_name \<equiv>
     create_client (aws e) (resolved_region e region_name) USER_AGENT_EXTRA = None"

subsection \<open>The entry point\<close>

text \<open>
  \<^verbatim>\<open>main\<close> declares its command line with the standard library's \<^verbatim>\<open>argparse\<close>. An argument
  declaration carries what \<^verbatim>\<open>add_argument\<close> is given: the option string, the \<^verbatim>\<open>type\<close>
  callable and the default. \<^verbatim>\<open>bool\<close> applied to a string is its truth value.
\<close>

record argument =
  option_string :: string
  arg_type :: "string \<Rightarrow> pyval"
  arg_default :: pyval

definition py_bool :: "string \<Rightarrow> pyval" where
  "py_bool s = PyBool (truthy (PyStr s))"

definition add_argument ::
  "argument list \<Rightarrow> string \<Rightarrow> (string \<Rightarrow> pyval) \<Rightarrow> pyval \<Rightarrow> argument list" where
  "add_argument parser name type dflt =
     parser @ [\<lparr>option_string = name, arg_type = type, arg_default = dflt\<rparr>]"

text \<open>
  The library's parser, for declarations of options that take one value. It covers the
  forms \<^verbatim>\<open>--opt VALUE\<close>, \<^verbatim>\<open>--opt=VALUE\<close>, an unambiguous prefix of a long option, and the
  built-in \<^verbatim>\<open>-h\<close>/\<^verbatim>\<open>--help\<close>, which prints the help and exits with status 0. A usage error
  exits with status 2: an option without its value, \<^verbatim>\<open>--\<close>, or, once the line is read, any
  token that is neither a declared option nor the value of one. The attribute of the
  namespace is the option string without its leading dashes.
\<close>

datatype halt = SystemExit int | Uncaught py_exception

datatype action = Help | Store argument

definition dest :: "argument \<Rightarrow> string" where
  "dest a = map (\<lambda>c. if c = CHR ''-'' then CHR ''_'' else c)
              (dropWhile (\<lambda>c. c = CHR ''-'') (option_string a))"

definition option_name :: "string \<Rightarrow> string" where
  "option_name t = takeWhile (\<lambda>c. c \<noteq> CHR ''='') t"

definition explicit_arg :: "string \<Rightarrow> string option" where
  "explicit_arg t =
     (if CHR ''='' \<in> set t then Some (tl (dropWhile (\<lambda>c. c \<noteq> CHR ''='') t)) else None)"

definition matching :: "argument list \<Rightarrow> string \<Rightarrow> action list" where
  "matching parser name =
     (if name = ''-h'' \<or> name = ''--help'' then [Help]
      else case filter (\<lambda>a. option_string a = name) parser of
             a # as \<Rightarrow> [Store a]
           | [] \<Rightarrow>
               (if prefix ''--'' name
                then (if prefix name ''--help'' then [Help] else [])
                     @ map Store (filter (\<lambda>a. prefix name (option_string a)) parser)
                else []))"

definition negative_number :: "string \<Rightarrow> bool" where
  "negative_number t =
     (case t of
        [] \<Rightarrow> False
      | c # ds \<Rightarrow>
          c = CHR ''-'' \<and>
          (let a = takeWhile (\<lambda>d. d \<noteq> CHR ''.'') ds;
               b = dropWhile (\<lambda>d. d \<noteq> CHR ''.'') ds
           in if b = [] then a \<noteq> [] \<and> list_all (\<lambda>d. d \<in> set ''0123456789'') a
              else list_all (\<lambda>d. d \<in> set ''0123456789'') a \<and> tl b \<noteq> []
                   \<and> list_all (\<lambda>d. d \<in> set ''0123456789'') (tl b)))"

definition is_option :: "argument list \<Rightarrow> string \<Rightarrow> bool" where
  "is_option parser t =
     (t \<noteq> [] \<and> hd t = CHR ''-'' \<and> length t \<noteq> 1 \<and>
      (matching parser (option_name t) \<noteq> [] \<or> (\<not> negative_number t \<and> CHR '' '' \<notin> set t)))"

fun consume :: "argument list \<Rightarrow> string list \<Rightarrow> dict \<Rightarrow> bool \<Rightarrow> halt + dict" where
  "consume parser [] ns extras = (if extras then Inl (SystemExit 2) else Inr ns)"
| "consume parser (t # ts) ns extras =
     (if t = ''--'' then Inl (SystemExit 2)
      else if \<not> is_option parser t then consume parser ts ns True
      else case matching parser (option_name t) of
             [Help] \<Rightarrow> (if explicit_arg t = None then Inl (SystemExit 0) else Inl (SystemExit 2))
           | [Store a] \<Rightarrow>
               (case explicit_arg t of
                  Some v \<Rightarrow> consume parser ts (AList.update (dest a) (arg_type a v) ns) extras
                | None \<Rightarrow>
                    (case ts of
                       [] \<Rightarrow> Inl (SystemExit 2)
                     | v # ts' \<Rightarrow>
                         if v = ''--'' \<or> is_option parser v then Inl (SystemExit 2)
                         else consume parser ts' (AList.update (dest a) (arg_type a v) ns) extras))
           | [] \<Rightarrow> consume parser ts ns True
           | _ \<Rightarrow> Inl (SystemExit 2))"

definition parse_args :: "argument list \<Rightarrow> string list \<Rightarrow> halt + dict" where
  "parse_args parser argv = consume parser argv (map (\<lambda>a. (dest a, arg_default a)) parser) False"

text \<open>
  The process: the read-only flag of the global context (absent until it is initialised) and
  whether the server loop was started.

  Modelled from the spec: \<^verbatim>\<open>context.Context\<close> is missing. The spec: the flag given on the
  command line toggles "a global read-only mode flag"; \<^verbatim>\<open>Context.initialize\<close> stores it.
\<close>

record process =
  readonly_mode :: "pyval option"
  mcp_running :: bool

definition Context_initialize :: "pyval \<Rightarrow> process \<Rightarrow> process" where
  "Context_initialize readonly p = p\<lparr>readonly_mode := Some readonly\<rparr>"

definition mcp_run :: "process \<Rightarrow> process" where
  "mcp_run p = p\<lparr>mcp_running := True\<rparr>"

text \<open>
  \<^verbatim>\<open>main\<close>: one \<^verbatim>\<open>add_argument\<close>, \<^verbatim>\<open>parse_args\<close> on the command line,
  \<^verbatim>\<open>Context.initialize(readonly_mode=args.readonly)\<close>, \<^verbatim>\<open>mcp.run()\<close>.
\<close>

definition main_parser :: "argument list" where
  "main_parser = add_argument [] ''--readonly'' py_bool (PyBool False)"

abbreviation readonly_argument :: argument where
  "readonly_argument \<equiv>
     \<lparr>option_string = ''--readonly'', arg_type = py_bool, arg_default = PyBool False\<rparr>"

definition main :: "string list \<Rightarrow> process \<Rightarrow> (halt + unit) \<times> process" where
  "main argv p =
     (let parser = main_parser
      in case parse_args parser argv of
           Inl stop \<Rightarrow> (Inl stop, p)
         | Inr args \<Rightarrow>
             (case map_of args ''readonly'' of
                None \<Rightarrow> (Inl (Uncaught (RawException ''AttributeError'' ''readonly'')), p)
              | Some readonly \<Rightarrow>
                  (let p = Context_initialize readonly p;
                       p = mcp_run p
                   in (Inr (), p))))"

section \<open>Example environments\<close>

text \<open>
  Concrete environments on which the theorems below are instantiated: an SDK that answers
  every call, one that accepts the credential check and refuses what follows, one that refuses
  every call, one that builds no client for a region name with a space in it, and the process
  environments around them.
\<close>

definition start :: state where
  "start = \<lparr>sessions = [], calls = [], logged = [], ctx_errors = []\<rparr>"

definition sample_response :: dict where
  "sample_response =
     [(''Environments'', PyList [PyDict [(''EnvironmentName'', PyStr ''prod'')]]),
      (''Applications'', PyList [PyDict [(''ApplicationName'', PyStr ''shop'')]]),
      (''NextToken'', PyStr ''t1'')]"

definition answering_sdk :: sdk where
  "answering_sdk =
     \<lparr>create_client = (\<lambda>region ua. None), invoke = (\<lambda>history c. Inr sample_response)\<rparr>"

definition denying_sdk :: sdk where
  "denying_sdk =
     \<lparr>create_client = (\<lambda>region ua. None),
      invoke = (\<lambda>history c.
        case history of
          [] \<Rightarrow> Inr []
        | _ \<Rightarrow> Inl (RawException ''botocore.exceptions.ClientError'' ''AccessDenied''))\<rparr>"

definition plain_env :: env where
  "plain_env = \<lparr>environ = Map.empty, aws = answering_sdk\<rparr>"

definition frankfurt_env :: env where
  "frankfurt_env = \<lparr>environ = [''AWS_REGION'' \<mapsto> ''eu-central-1''], aws = answering_sdk\<rparr>"

definition denied_env :: env where
  "denied_env = \<lparr>environ = Map.empty, aws = denying_sdk\<rparr>"

definition refusing_sdk :: sdk where
  "refusing_sdk =
     \<lparr>create_client = (\<lambda>region ua. None),
      invoke = (\<lambda>history c.
        Inl (RawException ''botocore.exceptions.NoCredentialsError''
               ''Unable to locate credentials''))\<rparr>"

definition locked_env :: env where
  "locked_env = \<lparr>environ = Map.empty, aws = refusing_sdk\<rparr>"

definition strict_sdk :: sdk where
  "strict_sdk =
     \<lparr>create_client = (\<lambda>region ua.
        if CHR '' '' \<in> set region
        then Some (RawException ''botocore.exceptions.InvalidRegionError''
                     ''Provided region_name does not match a supported format.'')
        else None),
      invoke = (\<lambda>history c. Inr sample_response)\<rparr>"

definition strict_env :: env where
  "strict_env = \<lparr>environ = Map.empty, aws = strict_sdk\<rparr>"

text \<open>
  Two values for \<^verbatim>\<open>ctx\<close>: an object whose \<^verbatim>\<open>error\<close> method takes the message, and a plain
  string, which has no such method.
\<close>

definition recording_ctx :: tool_ctx where
  "recording_ctx = \<lparr>error_raises = (\<lambda>msg. None)\<rparr>"

definition string_ctx :: tool_ctx where
  "string_ctx =
     \<lparr>error_raises = (\<lambda>msg.
        Some (RawException ''AttributeError'' ''str object has no attribute error''))\<rparr>"

definition idle :: process where
  "idle = \<lparr>readonly_mode = None, mcp_running = False\<rparr>"

section \<open>Auxiliary facts\<close>

lemmas example_defs = start_def sample_response_def answering_sdk_def denying_sdk_def
  plain_env_def frankfurt_env_def denied_env_def refusing_sdk_def locked_env_def idle_def
  strict_sdk_def strict_env_def recording_ctx_def string_ctx_def
  or_else_def environ_get_def



lemma map_of_if_update:
  "map_of (if b then AList.update k v p else p) k' =
     (if b \<and> k = k' then Some v else map_of p k')"
  by (simp add: update_conv')

lemmas tool_defs = describe_environments_def describe_applications_def describe_events_def
  describe_config_settings_def handle_exceptions_def get_beanstalk_client_def client_call_def
  handle_aws_api_error_def Let_def

lemma describe_environments_params_lookup:
  "map_of (describe_environments_params an ens eids incl) k =
     (if k = ''ApplicationName'' \<and> truthy (str_arg an) then Some (str_arg an)
      else if k = ''EnvironmentNames'' \<and> truthy (list_arg ens) then Some (list_arg ens)
      else if k = ''EnvironmentIds'' \<and> truthy (list_arg eids) then Some (list_arg eids)
      else if k = ''IncludeDeleted'' \<and> incl then Some (PyBool incl)
      else None)"
  unfolding describe_environments_params_def Let_def map_of_if_update
  by auto

lemma describe_applications_params_lookup:
  "map_of (describe_applications_params ans) k =
     (if k = ''ApplicationNames'' \<and> truthy (list_arg ans) then Some (list_arg ans) else None)"
  unfolding describe_applications_params_def Let_def map_of_if_update
  by auto

lemma describe_events_params_lookup:
  "map_of (describe_events_params an en eid stt ent mr sev) k =
     (if k = ''ApplicationName'' \<and> truthy (str_arg an) then Some (str_arg an)
      else if k = ''EnvironmentName'' \<and> truthy (str_arg en) then Some (str_arg en)
      else if k = ''EnvironmentId'' \<and> truthy (str_arg eid) then Some (str_arg eid)
      else if k = ''StartTime'' \<and> truthy (str_arg stt) then Some (str_arg stt)
      else if k = ''EndTime'' \<and> truthy (str_arg ent) then Some (str_arg ent)
      else if k = ''MaxRecords'' \<and> truthy (int_arg mr) then Some (int_arg mr)
      else if k = ''Severity'' \<and> truthy (str_arg sev) then Some (str_arg sev)
      else None)"
  unfolding describe_events_params_def Let_def map_of_if_update
  by auto

lemma describe_config_settings_params_lookup:
  "map_of (describe_config_settings_params app en tn) k =
     (if k = ''ApplicationName'' then Some (PyStr app)
      else if k = ''EnvironmentName'' \<and> truthy (str_arg en) then Some (str_arg en)
      else if k = ''TemplateName'' \<and> \<not> truthy (str_arg en) \<and> truthy (str_arg tn)
        then Some (str_arg tn)
      else None)"
  unfolding describe_config_settings_params_def Let_def
  by (auto simp: update_conv')

lemma get_beanstalk_client_Inr:
  assumes "get_beanstalk_client e rn st = (Inr c, st')"
  shows "c = \<lparr>client_region = resolved_region e rn, client_user_agent_extra = USER_AGENT_EXTRA\<rparr>
       \<and> st' = st\<lparr>sessions := sessions st @ [resolved_region e rn],
                   calls := calls st @ [verify_call (resolved_region e rn)]\<rparr>
       \<and> client_built e rn
       \<and> (\<exists>x. invoke (aws e) (calls st) (verify_call (resolved_region e rn)) = Inr x)"
  using assms
  by (auto simp: get_beanstalk_client_def client_call_def Let_def
           split: option.splits sum.splits prod.splits)

lemma describe_environments_issued:
  "issued st (snd (describe_environments e an ens eids incl rn st)) \<in>
     {[], [verify_call (resolved_region e rn)],
      [verify_call (resolved_region e rn),
       \<lparr>call_region = resolved_region e rn, call_op = ''describe_environments'',
        call_params = describe_environments_params an ens eids incl\<rparr>]}"
  by (simp add: tool_defs issued_def split: option.splits sum.splits prod.splits)

lemma describe_applications_issued:
  "issued st (snd (describe_applications e ans rn st)) \<in>
     {[], [verify_call (resolved_region e rn)],
      [verify_call (resolved_region e rn),
       \<lparr>call_region = resolved_region e rn, call_op = ''describe_applications'',
        call_params = describe_applications_params ans\<rparr>]}"
  by (simp add: tool_defs issued_def split: option.splits sum.splits prod.splits)

lemma describe_events_issued:
  "issued st (snd (describe_events e an en eid stt ent mr sev rn st)) \<in>
     {[], [verify_call (resolved_region e rn)],
      [verify_call (resolved_region e rn),
       \<lparr>call_region = resolved_region e rn, call_op = ''describe_events'',
        call_params = describe_events_params an en eid stt ent mr sev\<rparr>]}"
  by (simp add: tool_defs issued_def split: option.splits sum.splits prod.splits)

lemma describe_config_settings_issued:
  "issued st (snd (describe_config_settings e ctx app en tn rn st)) \<in>
     {[], [verify_call (resolved_region e rn)],
      [verify_call (resolved_region e rn),
       \<lparr>call_region = resolved_region e rn, call_op = ''describe_configuration_settings'',
        call_params = describe_config_settings_params app en tn\<rparr>]}"
  by (simp add: tool_defs issued_def split: option.splits sum.splits prod.splits)

lemma falsy_args [simp]:
  "\<not> truthy (str_arg None)" "\<not> truthy (str_arg (Some []))"
  "\<not> truthy (list_arg None)" "\<not> truthy (list_arg (Some []))"
  "\<not> truthy (int_arg None)" "\<not> truthy (int_arg (Some 0))"
  by (simp_all add: str_arg_def list_arg_def int_arg_def)


lemma falsy_params:
  "describe_environments_params (Some []) ens eids incl = describe_environments_params None ens eids incl"
  "describe_environments_params an (Some []) eids incl = describe_environments_params an None eids incl"
  "describe_environments_params an ens (Some []) incl = describe_environments_params an ens None incl"
  "describe_applications_params (Some []) = describe_applications_params None"
  "describe_events_params (Some []) en eid stt ent mr sev = describe_events_params None en eid stt ent mr sev"
  "describe_events_params an (Some []) eid stt ent mr sev = describe_events_params an None eid stt ent mr sev"
  "describe_events_params an en (Some []) stt ent mr sev = describe_events_params an en None stt ent mr sev"
  "describe_events_params an en eid (Some []) ent mr sev = describe_events_params an en eid None ent mr sev"
  "describe_events_params an en eid stt (Some []) mr sev = describe_events_params an en eid stt None mr sev"
  "describe_events_params an en eid stt ent (Some 0) sev = describe_events_params an en eid stt ent None sev"
  "describe_events_params an en eid stt ent mr (Some []) = describe_events_params an en eid stt ent mr None"
  "describe_config_settings_params app (Some []) tn = describe_config_settings_params app None tn"
  "describe_config_settings_params app en (Some []) = describe_config_settings_params app en None"
  by (simp_all add: describe_environments_params_def describe_applications_params_def
        describe_events_params_def describe_config_settings_params_def Let_def)

lemma falsy_truthy: "truthy (str_arg (Some [])) = truthy (str_arg None)"
  by simp

lemma falsy_region: "get_beanstalk_client e (Some []) = get_beanstalk_client e None"
  by (rule ext) (simp add: get_beanstalk_client_def or_else_def)

subsection \<open>The command line\<close>

lemma main_parser_eq: "main_parser = [readonly_argument]"
  by (simp add: main_parser_def add_argument_def)

lemma readonly_dest: "dest readonly_argument = ''readonly''"
  by (simp add: dest_def)

lemma matching_main_cases:
  "matching main_parser name = [Help] \<or> matching main_parser name = [] \<or>
   matching main_parser name = [Help, Store readonly_argument] \<or>
   matching main_parser name = [Store readonly_argument]"
  by (auto simp: matching_def main_parser_eq)

lemma consume_stray:
  "t \<noteq> ''--'' \<Longrightarrow> \<not> is_option parser t
     \<Longrightarrow> consume parser (t # ts) ns extras = consume parser ts ns True"
  by simp

lemma consume_unknown:
  "t \<noteq> ''--'' \<Longrightarrow> matching parser (option_name t) = []
     \<Longrightarrow> consume parser (t # ts) ns extras = consume parser ts ns True"
  by simp

lemma consume_help:
  "matching parser (option_name t) = [Help] \<Longrightarrow> is_option parser t
     \<Longrightarrow> consume parser (t # ts) ns extras \<noteq> Inr ns'"
  by simp

lemma consume_ambiguous:
  "matching parser (option_name t) = [Help, Store a] \<Longrightarrow> is_option parser t
     \<Longrightarrow> consume parser (t # ts) ns extras \<noteq> Inr ns'"
  by simp

lemma consume_store:
  "t \<noteq> ''--'' \<Longrightarrow> is_option parser t \<Longrightarrow> matching parser (option_name t) = [Store a]
     \<Longrightarrow> consume parser (t # ts) ns extras =
         (case explicit_arg t of
            Some v \<Rightarrow> consume parser ts (AList.update (dest a) (arg_type a v) ns) extras
          | None \<Rightarrow>
              (case ts of
                 [] \<Rightarrow> Inl (SystemExit 2)
               | v # ts' \<Rightarrow>
                   if v = ''--'' \<or> is_option parser v then Inl (SystemExit 2)
                   else consume parser ts' (AList.update (dest a) (arg_type a v) ns) extras))"
  by simp

lemma consume_main_cases:
  assumes run: "consume main_parser (t # ts) ns extras = Inr ns'"
  shows "consume main_parser ts ns True = Inr ns' \<or>
         is_option main_parser t \<and>
         matching main_parser (option_name t) = [Store readonly_argument] \<and>
         (case explicit_arg t of
            Some s \<Rightarrow> consume main_parser ts (AList.update ''readonly'' (py_bool s) ns) extras
                        = Inr ns'
          | None \<Rightarrow> \<exists>u ts'. ts = u # ts' \<and> \<not> is_option main_parser u \<and>
                consume main_parser ts' (AList.update ''readonly'' (py_bool u) ns) extras
                  = Inr ns')"
proof -
  have sep: "t \<noteq> ''--''"
  proof
    assume "t = ''--''"
    with run show False by simp
  qed
  show ?thesis
  proof (cases "is_option main_parser t")
    case False
    from consume_stray [OF sep False, of ts ns extras] run show ?thesis by simp
  next
    case opt: True
    from matching_main_cases [of "option_name t"] show ?thesis
    proof (elim disjE)
      assume "matching main_parser (option_name t) = [Help]"
      from consume_help [OF this opt] run show ?thesis by blast
    next
      assume "matching main_parser (option_name t) = []"
      from consume_unknown [OF sep this, of ts ns extras] run show ?thesis by simp
    next
      assume "matching main_parser (option_name t) = [Help, Store readonly_argument]"
      from consume_ambiguous [OF this opt] run show ?thesis by blast
    next
      assume store: "matching main_parser (option_name t) = [Store readonly_argument]"
      note step = consume_store [OF sep opt store, of ts ns extras]
      have "case explicit_arg t of
            Some s \<Rightarrow> consume main_parser ts (AList.update ''readonly'' (py_bool s) ns) extras
                        = Inr ns'
          | None \<Rightarrow> \<exists>u ts'. ts = u # ts' \<and> \<not> is_option main_parser u \<and>
                consume main_parser ts' (AList.update ''readonly'' (py_bool u) ns) extras
                  = Inr ns'"
      proof (cases "explicit_arg t")
        case (Some s)
        with step run show ?thesis by (simp add: readonly_dest)
      next
        case None
        show ?thesis
        proof (cases ts)
          case Nil
          with step run None show ?thesis by simp
        next
          case (Cons u ts')
          with step run None show ?thesis
            by (auto simp: readonly_dest split: if_splits)
        qed
      qed
      with opt store show ?thesis by blast
    qed
  qed
qed

lemma consume_extras: "consume main_parser ts ns True \<noteq> Inr ns'"
proof (induction ts arbitrary: ns rule: length_induct)
  case (1 ts)
  show ?case
  proof (cases ts)
    case Nil
    then show ?thesis by simp
  next
    case (Cons t rest)
    show ?thesis
    proof
      assume "consume main_parser ts ns True = Inr ns'"
      with Cons have run: "consume main_parser (t # rest) ns True = Inr ns'" by simp
      from consume_main_cases [OF run] "1.IH" Cons show False
        by (auto split: option.splits)
    qed
  qed
qed

lemma consume_main_step:
  assumes run: "consume main_parser (t # ts) ns extras = Inr ns'"
  shows "is_option main_parser t \<and>
         matching main_parser (option_name t) = [Store readonly_argument] \<and>
         (case explicit_arg t of
            Some s \<Rightarrow> consume main_parser ts (AList.update ''readonly'' (py_bool s) ns) extras
                        = Inr ns'
          | None \<Rightarrow> \<exists>u ts'. ts = u # ts' \<and> \<not> is_option main_parser u \<and>
                consume main_parser ts' (AList.update ''readonly'' (py_bool u) ns) extras
                  = Inr ns')"
  using consume_main_cases [OF run] consume_extras [of ts ns ns'] by blast

lemma consume_main:
  assumes "consume main_parser ts [(''readonly'', v)] extras = Inr ns'"
  shows "(\<exists>v'. ns' = [(''readonly'', v')] \<and> (v' = v \<or> (\<exists>s. v' = py_bool s))
            \<and> ((\<forall>t \<in> set ts. matching main_parser (option_name t) \<noteq> [Store readonly_argument])
                  \<longrightarrow> v' = v))
       \<and> (\<forall>t \<in> set ts. is_option main_parser t
            \<longrightarrow> matching main_parser (option_name t) = [Store readonly_argument])"
  using assms
proof (induction ts arbitrary: v rule: length_induct)
  case (1 ts)
  show ?case
  proof (cases ts)
    case Nil
    with "1.prems" show ?thesis by (simp split: if_splits)
  next
    case (Cons t rest)
    with "1.prems" have run: "consume main_parser (t # rest) [(''readonly'', v)] extras = Inr ns'"
      by simp
    note step = consume_main_step [OF run]
    show ?thesis
    proof (cases "explicit_arg t")
      case (Some s)
      with step have "consume main_parser rest [(''readonly'', py_bool s)] extras = Inr ns'"
        by simp
      with "1.IH" Cons
      have "(\<exists>v'. ns' = [(''readonly'', v')] \<and> (v' = py_bool s \<or> (\<exists>s. v' = py_bool s)))
          \<and> (\<forall>t \<in> set rest. is_option main_parser t
                \<longrightarrow> matching main_parser (option_name t) = [Store readonly_argument])"
        by (metis length_Cons lessI)
      with step Cons show ?thesis by auto
    next
      case None
      with step obtain u ts' where rest: "rest = u # ts'"
        and "value": "\<not> is_option main_parser u"
        and tail: "consume main_parser ts' [(''readonly'', py_bool u)] extras = Inr ns'"
        by auto
      have "length ts' < length ts"
        using Cons rest by simp
      with "1.IH" tail
      have "(\<exists>v'. ns' = [(''readonly'', v')] \<and> (v' = py_bool u \<or> (\<exists>s. v' = py_bool s)))
          \<and> (\<forall>t \<in> set ts'. is_option main_parser t
                \<longrightarrow> matching main_parser (option_name t) = [Store readonly_argument])"
        by metis
      with step Cons rest "value" show ?thesis by auto
    qed
  qed
qed

lemma parse_args_main:
  "parse_args main_parser argv = consume main_parser argv [(''readonly'', PyBool False)] False"
  by (simp add: parse_args_def main_parser_eq readonly_dest)

lemma readonly_option:
  "is_option main_parser ''--readonly''"
  "matching main_parser (option_name ''--readonly'') = [Store readonly_argument]"
  "explicit_arg ''--readonly'' = None"
  by (simp_all add: is_option_def matching_def option_name_def explicit_arg_def main_parser_eq)

section \<open>Claims\<close>

text \<open>
  C3. For every call of each of the four tools, every optional filter that the caller omits
  is absent as a key from the parameter dictionary of every outbound AWS API call the tool
  makes (the credential check of client construction included). An omitted
  \<^verbatim>\<open>include_deleted\<close> is its default \<^verbatim>\<open>False\<close>.
\<close>

theorem omitted_filters_absent:
  "(\<forall>c \<in> set (issued st (snd (describe_environments e an ens eids incl rn st))).
      (an = None \<longrightarrow> map_of (call_params c) ''ApplicationName'' = None) \<and>
      (ens = None \<longrightarrow> map_of (call_params c) ''EnvironmentNames'' = None) \<and>
      (eids = None \<longrightarrow> map_of (call_params c) ''EnvironmentIds'' = None) \<and>
      (\<not> incl \<longrightarrow> map_of (call_params c) ''IncludeDeleted'' = None)) \<and>
   (\<forall>c \<in> set (issued st (snd (describe_applications e ans rn st))).
      (ans = None \<longrightarrow> map_of (call_params c) ''ApplicationNames'' = None)) \<and>
   (\<forall>c \<in> set (issued st (snd (describe_events e an en eid stt ent mr sev rn st))).
      (an = None \<longrightarrow> map_of (call_params c) ''ApplicationName'' = None) \<and>
      (en = None \<longrightarrow> map_of (call_params c) ''EnvironmentName'' = None) \<and>
      (eid = None \<longrightarrow> map_of (call_params c) ''EnvironmentId'' = None) \<and>
      (stt = None \<longrightarrow> map_of (call_params c) ''StartTime'' = None) \<and>
      (ent = None \<longrightarrow> map_of (call_params c) ''EndTime'' = None) \<and>
      (mr = None \<longrightarrow> map_of (call_params c) ''MaxRecords'' = None) \<and>
      (sev = None \<longrightarrow> map_of (call_params c) ''Severity'' = None)) \<and>
   (\<forall>c \<in> set (issued st (snd (describe_config_settings e ctx app en tn rn st))).
      (en = None \<longrightarrow> map_of (call_params c) ''EnvironmentName'' = None) \<and>
      (tn = None \<longrightarrow> map_of (call_params c) ''TemplateName'' = None))"
proof (intro conjI)
  show "\<forall>c \<in> set (issued st (snd (describe_environments e an ens eids incl rn st))).
      (an = None \<longrightarrow> map_of (call_params c) ''ApplicationName'' = None) \<and>
      (ens = None \<longrightarrow> map_of (call_params c) ''EnvironmentNames'' = None) \<and>
      (eids = None \<longrightarrow> map_of (call_params c) ''EnvironmentIds'' = None) \<and>
      (\<not> incl \<longrightarrow> map_of (call_params c) ''IncludeDeleted'' = None)"
    using describe_environments_issued [of st e an ens eids incl rn]
    by (auto simp: describe_environments_params_lookup)
  show "\<forall>c \<in> set (issued st (snd (describe_applications e ans rn st))).
      (ans = None \<longrightarrow> map_of (call_params c) ''ApplicationNames'' = None)"
    using describe_applications_issued [of st e ans rn]
    by (auto simp: describe_applications_params_lookup)
  show "\<forall>c \<in> set (issued st (snd (describe_events e an en eid stt ent mr sev rn st))).
      (an = None \<longrightarrow> map_of (call_params c) ''ApplicationName'' = None) \<and>
      (en = None \<longrightarrow> map_of (call_params c) ''EnvironmentName'' = None) \<and>
      (eid = None \<longrightarrow> map_of (call_params c) ''EnvironmentId'' = None) \<and>
      (stt = None \<longrightarrow> map_of (call_params c) ''StartTime'' = None) \<and>
      (ent = None \<longrightarrow> map_of (call_params c) ''EndTime'' = None) \<and>
      (mr = None \<longrightarrow> map_of (call_params c) ''MaxRecords'' = None) \<and>
      (sev = None \<longrightarrow> map_of (call_params c) ''Severity'' = None)"
    using describe_events_issued [of st e an en eid stt ent mr sev rn]
    by (auto simp: describe_events_params_lookup)
  show "\<forall>c \<in> set (issued st (snd (describe_config_settings e ctx app en tn rn st))).
      (en = None \<longrightarrow> map_of (call_params c) ''EnvironmentName'' = None) \<and>
      (tn = None \<longrightarrow> map_of (call_params c) ''TemplateName'' = None)"
    using describe_config_settings_issued [of st e ctx app en tn rn]
    by (auto simp: describe_config_settings_params_lookup)
qed

text \<open>
  An instance: \<^verbatim>\<open>describe_events(environment_name='prod', max_records=5)\<close> sends exactly
  these two keys.
\<close>

theorem omitted_filters_absent_witness:
  "issued start (snd (describe_events plain_env None (Some ''prod'') None None None (Some 5)
       None None start)) =
     [verify_call DEFAULT_REGION,
      \<lparr>call_region = DEFAULT_REGION, call_op = ''describe_events'',
       call_params = [(''EnvironmentName'', PyStr ''prod''), (''MaxRecords'', PyInt 5)]\<rparr>] \<and>
   map_of [(''EnvironmentName'', PyStr ''prod''), (''MaxRecords'', PyInt 5)] ''ApplicationName''
     = None \<and>
   map_of [(''EnvironmentName'', PyStr ''prod''), (''MaxRecords'', PyInt 5)] ''Severity'' = None"
proof -
  have calls: "issued start (snd (describe_events plain_env None (Some ''prod'') None None None
       (Some 5) None None start)) =
     [verify_call DEFAULT_REGION,
      \<lparr>call_region = DEFAULT_REGION, call_op = ''describe_events'',
       call_params = [(''EnvironmentName'', PyStr ''prod''), (''MaxRecords'', PyInt 5)]\<rparr>]"
    by (simp add: tool_defs issued_def example_defs describe_events_params_def str_arg_def
          int_arg_def)
  show ?thesis
    using omitted_filters_absent [where st = start and e = plain_env and an = None
        and en = "Some ''prod''" and eid = None and stt = None and ent = None
        and mr = "Some 5" and sev = None and rn = None]
    unfolding calls by simp
qed

text \<open>
  C4. When \<^verbatim>\<open>describe_config_settings\<close> is given both a non-empty \<^verbatim>\<open>environment_name\<close> and a
  non-empty \<^verbatim>\<open>template_name\<close>, the parameters it builds, and those of every
  \<^verbatim>\<open>describe_configuration_settings\<close> call it makes, are \<^verbatim>\<open>ApplicationName\<close> and
  \<^verbatim>\<open>EnvironmentName\<close>: the environment name is there and no \<^verbatim>\<open>TemplateName\<close> key is. The
  call is made as soon as client construction succeeds.
\<close>

theorem environment_name_preferred:
  assumes "environment_name = Some en" and "en \<noteq> []"
    and "template_name = Some tn" and "tn \<noteq> []"
  shows "describe_config_settings_params app environment_name template_name =
           [(''ApplicationName'', PyStr app), (''EnvironmentName'', PyStr en)] \<and>
         (\<forall>c \<in> set (issued st
              (snd (describe_config_settings e ctx app environment_name template_name rn st))).
            call_op c = ''describe_configuration_settings'' \<longrightarrow>
              map_of (call_params c) ''EnvironmentName'' = Some (PyStr en) \<and>
              map_of (call_params c) ''TemplateName'' = None) \<and>
         (client_built e rn \<and> invoke (aws e) (calls st) (verify_call (resolved_region e rn)) = Inr x
            \<longrightarrow> issued st
                  (snd (describe_config_settings e ctx app environment_name template_name rn st)) =
                [verify_call (resolved_region e rn),
                 \<lparr>call_region = resolved_region e rn,
                  call_op = ''describe_configuration_settings'',
                  call_params =
                    [(''ApplicationName'', PyStr app), (''EnvironmentName'', PyStr en)]\<rparr>])"
proof (intro conjI)
  show params: "describe_config_settings_params app environment_name template_name =
      [(''ApplicationName'', PyStr app), (''EnvironmentName'', PyStr en)]"
    using assms by (simp add: describe_config_settings_params_def str_arg_def)
  show "\<forall>c \<in> set (issued st
          (snd (describe_config_settings e ctx app environment_name template_name rn st))).
        call_op c = ''describe_configuration_settings'' \<longrightarrow>
          map_of (call_params c) ''EnvironmentName'' = Some (PyStr en) \<and>
          map_of (call_params c) ''TemplateName'' = None"
    using describe_config_settings_issued [of st e ctx app environment_name template_name rn]
    by (auto simp: params)
  show "client_built e rn \<and> invoke (aws e) (calls st) (verify_call (resolved_region e rn)) = Inr x
      \<longrightarrow> issued st
            (snd (describe_config_settings e ctx app environment_name template_name rn st)) =
          [verify_call (resolved_region e rn),
           \<lparr>call_region = resolved_region e rn,
            call_op = ''describe_configuration_settings'',
            call_params =
              [(''ApplicationName'', PyStr app), (''EnvironmentName'', PyStr en)]\<rparr>]"
    using assms
    by (simp add: tool_defs issued_def str_arg_def params [symmetric]
          split: option.splits sum.splits prod.splits)
qed

text \<open>
  An instance: application \<^verbatim>\<open>shop\<close>, environment \<^verbatim>\<open>prod\<close> and template \<^verbatim>\<open>defaults\<close> in an
  environment whose SDK answers.
\<close>

theorem environment_name_preferred_witness:
  "issued start (snd (describe_config_settings plain_env recording_ctx ''shop'' (Some ''prod'')
       (Some ''defaults'') None start)) =
     [verify_call DEFAULT_REGION,
      \<lparr>call_region = DEFAULT_REGION, call_op = ''describe_configuration_settings'',
       call_params = [(''ApplicationName'', PyStr ''shop''),
                      (''EnvironmentName'', PyStr ''prod'')]\<rparr>]"
  using environment_name_preferred [where environment_name = "Some ''prod''" and en = "''prod''"
      and template_name = "Some ''defaults''" and tn = "''defaults''" and app = "''shop''"
      and e = plain_env and rn = None and st = start and x = sample_response]
  by (simp add: example_defs)

text \<open>
  C5, as stated: an explicit \<^verbatim>\<open>region_name\<close> is used when given. It is not when the given
  string is empty: \<^verbatim>\<open>region_name or ...\<close> tests the truth value, so with
  \<^verbatim>\<open>AWS_REGION=eu-central-1\<close> the call \<^verbatim>\<open>get_beanstalk_client('')\<close> builds its session and
  client in \<^verbatim>\<open>eu-central-1\<close>.
\<close>

theorem region_given_empty_counterexample:
  "sessions (snd (get_beanstalk_client frankfurt_env (Some []) start)) = [''eu-central-1''] \<and>
   fst (get_beanstalk_client frankfurt_env (Some []) start) =
     Inr \<lparr>client_region = ''eu-central-1'', client_user_agent_extra = USER_AGENT_EXTRA\<rparr>"
  by (simp add: get_beanstalk_client_def client_call_def Let_def example_defs)

text \<open>
  C5, amended. Region resolution in client construction follows the precedence: an explicit
  \<^verbatim>\<open>region_name\<close> is used when it is given and not empty; otherwise (absent or empty) the
  \<^verbatim>\<open>AWS_REGION\<close> environment variable is used when set; otherwise the hardcoded default
  region is used. The session is created with the resolved region, a client that is returned
  has it, and every call of client construction goes to it.
\<close>

theorem region_precedence:
  "(region_name = Some r \<and> r \<noteq> [] \<longrightarrow> resolved_region e region_name = r) \<and>
   ((region_name = None \<or> region_name = Some []) \<and> environ e ''AWS_REGION'' = Some v
      \<longrightarrow> resolved_region e region_name = v) \<and>
   ((region_name = None \<or> region_name = Some []) \<and> environ e ''AWS_REGION'' = None
      \<longrightarrow> resolved_region e region_name = DEFAULT_REGION) \<and>
   sessions (snd (get_beanstalk_client e region_name st)) =
     sessions st @ [resolved_region e region_name] \<and>
   (fst (get_beanstalk_client e region_name st) = Inr c
      \<longrightarrow> client_region c = resolved_region e region_name) \<and>
   (\<forall>c \<in> set (issued st (snd (get_beanstalk_client e region_name st))).
      call_region c = resolved_region e region_name)"
proof (intro conjI)
  show "region_name = Some r \<and> r \<noteq> [] \<longrightarrow> resolved_region e region_name = r"
    by (simp add: or_else_def)
  show "(region_name = None \<or> region_name = Some []) \<and> environ e ''AWS_REGION'' = Some v
      \<longrightarrow> resolved_region e region_name = v"
    by (auto simp: or_else_def environ_get_def)
  show "(region_name = None \<or> region_name = Some []) \<and> environ e ''AWS_REGION'' = None
      \<longrightarrow> resolved_region e region_name = DEFAULT_REGION"
    by (auto simp: or_else_def environ_get_def)
  show "sessions (snd (get_beanstalk_client e region_name st)) =
      sessions st @ [resolved_region e region_name]"
    by (simp add: get_beanstalk_client_def client_call_def Let_def
          split: option.splits sum.splits prod.splits)
  show "fst (get_beanstalk_client e region_name st) = Inr c
      \<longrightarrow> client_region c = resolved_region e region_name"
    by (auto simp: get_beanstalk_client_def client_call_def Let_def
          split: option.splits sum.splits prod.splits)
  show "\<forall>c \<in> set (issued st (snd (get_beanstalk_client e region_name st))).
      call_region c = resolved_region e region_name"
    by (auto simp: get_beanstalk_client_def client_call_def Let_def issued_def
          split: option.splits sum.splits prod.splits)
qed

text \<open>
  Instances: an explicit region beats \<^verbatim>\<open>AWS_REGION\<close>; \<^verbatim>\<open>AWS_REGION\<close> is used without an explicit
  region; with neither, the session is created in the default region.
\<close>

theorem region_precedence_witness:
  "sessions (snd (get_beanstalk_client frankfurt_env (Some ''us-west-2'') start)) = [''us-west-2''] \<and>
   sessions (snd (get_beanstalk_client frankfurt_env None start)) = [''eu-central-1''] \<and>
   sessions (snd (get_beanstalk_client plain_env None start)) = [DEFAULT_REGION] \<and>
   issued start (snd (get_beanstalk_client plain_env None start)) = [verify_call DEFAULT_REGION]"
proof -
  have "issued start (snd (get_beanstalk_client plain_env None start))
      = [verify_call (resolved_region plain_env None)]"
    by (simp add: get_beanstalk_client_def client_call_def Let_def issued_def start_def
          plain_env_def answering_sdk_def)
  then show ?thesis
    using region_precedence [where region_name = "Some ''us-west-2''" and r = "''us-west-2''"
        and e = frankfurt_env and st = start]
      region_precedence [where region_name = None and v = "''eu-central-1''"
        and e = frankfurt_env and st = start]
      region_precedence [where region_name = None and e = plain_env and st = start]
    by (simp add: start_def plain_env_def frankfurt_env_def)
qed

text \<open>
  C1, as stated: with both names absent \<^verbatim>\<open>describe_config_settings\<close> raises the client error
  without contacting AWS. The client error is raised, but the first statement of the tool is
  \<^verbatim>\<open>get_beanstalk_client(region_name)\<close>, whose credential check is an outbound
  \<^verbatim>\<open>describe_applications\<close> call: here it is made before the check of the two names, whatever
  \<^verbatim>\<open>ctx\<close> is.
\<close>

theorem missing_names_contact_counterexample:
  "fst (describe_config_settings plain_env recording_ctx ''shop'' None None None start) =
     Inl (ClientError ''Either environment_name or template_name must be provided'') \<and>
   calls (snd (describe_config_settings plain_env recording_ctx ''shop'' None None None start)) =
     [verify_call DEFAULT_REGION] \<and>
   calls (snd (describe_config_settings plain_env string_ctx ''shop'' None None None start)) =
     [verify_call DEFAULT_REGION]"
  by (simp add: tool_defs example_defs)

text \<open>
  C1, amended. For every call of \<^verbatim>\<open>describe_config_settings\<close> in which both
  \<^verbatim>\<open>environment_name\<close> and \<^verbatim>\<open>template_name\<close> are absent, and for any \<^verbatim>\<open>application_name\<close>,
  the operation raises the uniform client-error type and makes no
  \<^verbatim>\<open>describe_configuration_settings\<close> call. AWS is contacted all the same: client
  construction comes first, and once the SDK has built the client its credential check
  \<^verbatim>\<open>describe_applications\<close> is the one outbound call on that path. When the check succeeds and
  the call \<^verbatim>\<open>ctx.error(error_msg)\<close> returns, the error raised is the missing-parameter error
  and \<^verbatim>\<open>ctx\<close> has received its message.
\<close>

theorem missing_names_rejected:
  assumes "environment_name = None" and "template_name = None"
  shows "(\<exists>m. fst (describe_config_settings e ctx app environment_name template_name rn st)
              = Inl (ClientError m)) \<and>
         (\<forall>c \<in> set (issued st
              (snd (describe_config_settings e ctx app environment_name template_name rn st))).
            c = verify_call (resolved_region e rn)) \<and>
         (client_built e rn
            \<longrightarrow> issued st
                  (snd (describe_config_settings e ctx app environment_name template_name rn st))
                = [verify_call (resolved_region e rn)]) \<and>
         (client_built e rn
            \<and> invoke (aws e) (calls st) (verify_call (resolved_region e rn)) = Inr x
            \<and> error_raises ctx ''Either environment_name or template_name must be provided''
                = None
            \<longrightarrow> fst (describe_config_settings e ctx app environment_name template_name rn st)
                  = Inl (ClientError
                      ''Either environment_name or template_name must be provided'') \<and>
                ctx_errors
                  (snd (describe_config_settings e ctx app environment_name template_name rn st))
                  = ctx_errors st
                    @ [''Either environment_name or template_name must be provided''])"
proof (intro conjI)
  show "\<exists>m. fst (describe_config_settings e ctx app environment_name template_name rn st)
      = Inl (ClientError m)"
    using assms
    by (auto simp: tool_defs split: option.splits sum.splits prod.splits)
  show "\<forall>c \<in> set (issued st
        (snd (describe_config_settings e ctx app environment_name template_name rn st))).
      c = verify_call (resolved_region e rn)"
    using assms
    by (auto simp: tool_defs issued_def split: option.splits sum.splits prod.splits)
  show "client_built e rn
      \<longrightarrow> issued st
            (snd (describe_config_settings e ctx app environment_name template_name rn st))
          = [verify_call (resolved_region e rn)]"
    using assms
    by (auto simp: tool_defs issued_def split: option.splits sum.splits prod.splits)
  show "client_built e rn
      \<and> invoke (aws e) (calls st) (verify_call (resolved_region e rn)) = Inr x
      \<and> error_raises ctx ''Either environment_name or template_name must be provided'' = None
      \<longrightarrow> fst (describe_config_settings e ctx app environment_name template_name rn st)
            = Inl (ClientError ''Either environment_name or template_name must be provided'') \<and>
          ctx_errors
            (snd (describe_config_settings e ctx app environment_name template_name rn st))
            = ctx_errors st @ [''Either environment_name or template_name must be provided'']"
    using assms
    by (simp add: tool_defs)
qed

text \<open>
  An instance: application \<^verbatim>\<open>shop\<close>, region \<^verbatim>\<open>us-west-2\<close>, an SDK that answers and a \<^verbatim>\<open>ctx\<close>
  that takes the message.
\<close>

theorem missing_names_rejected_witness:
  "fst (describe_config_settings plain_env recording_ctx ''shop'' None None (Some ''us-west-2'')
      start) =
     Inl (ClientError ''Either environment_name or template_name must be provided'') \<and>
   issued start
     (snd (describe_config_settings plain_env recording_ctx ''shop'' None None
        (Some ''us-west-2'') start)) =
     [verify_call ''us-west-2''] \<and>
   ctx_errors
     (snd (describe_config_settings plain_env recording_ctx ''shop'' None None
        (Some ''us-west-2'') start)) =
     [''Either environment_name or template_name must be provided'']"
proof -
  have region: "resolved_region plain_env (Some ''us-west-2'') = ''us-west-2''"
    by (simp add: or_else_def)
  have built: "client_built plain_env (Some ''us-west-2'')"
    by (simp add: plain_env_def answering_sdk_def)
  have answered: "invoke (aws plain_env) (calls start)
      (verify_call (resolved_region plain_env (Some ''us-west-2''))) = Inr sample_response"
    by (simp add: plain_env_def answering_sdk_def)
  have taken: "error_raises recording_ctx
      ''Either environment_name or template_name must be provided'' = None"
    by (simp add: recording_ctx_def)
  have empty: "ctx_errors start = []"
    by (simp add: start_def)
  show ?thesis
    using missing_names_rejected [OF refl refl, of plain_env recording_ctx "''shop''"
        "Some ''us-west-2''" start sample_response] built answered taken
    unfolding region empty append_Nil by blast
qed

text \<open>
  C6. \<^verbatim>\<open>describe_applications()\<close> with no arguments sends no filter: every outbound call it
  makes is \<^verbatim>\<open>describe_applications\<close> with an empty parameter dictionary. The missing
  arguments are no error: the tool raises only when the SDK does (building the client, at the
  credential check or at the call), and when the SDK answers, the result is the dictionary
  whose \<^verbatim>\<open>Applications\<close> entry is the \<^verbatim>\<open>Applications\<close> list of the response, in full.
\<close>

theorem describe_applications_no_arguments:
  "(\<forall>c \<in> set (issued st (snd (describe_applications e None None st))).
      call_op c = ''describe_applications'' \<and> call_params c = []) \<and>
   (fst (describe_applications e None None st) = Inl ex
      \<longrightarrow> \<not> client_built e None
          \<or> (\<exists>x. invoke (aws e) (calls st) (verify_call (resolved_region e None)) = Inl x)
          \<or> (\<exists>x. invoke (aws e) (calls st @ [verify_call (resolved_region e None)])
                    (verify_call (resolved_region e None)) = Inl x)) \<and>
   (client_built e None
      \<and> invoke (aws e) (calls st) (verify_call (resolved_region e None)) = Inr x
      \<and> invoke (aws e) (calls st @ [verify_call (resolved_region e None)])
            (verify_call (resolved_region e None)) = Inr response
      \<longrightarrow> fst (describe_applications e None None st) =
            Inr [(''Applications'', dict_get response ''Applications'' (PyList []))]
        \<and> issued st (snd (describe_applications e None None st)) =
            [verify_call (resolved_region e None), verify_call (resolved_region e None)]
        \<and> (map_of response ''Applications'' = Some apps
              \<longrightarrow> fst (describe_applications e None None st) = Inr [(''Applications'', apps)]))"
proof (intro conjI)
  have params: "describe_applications_params None = []"
    by (simp add: describe_applications_params_def)
  show "\<forall>c \<in> set (issued st (snd (describe_applications e None None st))).
      call_op c = ''describe_applications'' \<and> call_params c = []"
    using describe_applications_issued [of st e None None]
    by (auto simp: params)
  show "fst (describe_applications e None None st) = Inl ex
      \<longrightarrow> \<not> client_built e None
          \<or> (\<exists>x. invoke (aws e) (calls st) (verify_call (resolved_region e None)) = Inl x)
          \<or> (\<exists>x. invoke (aws e) (calls st @ [verify_call (resolved_region e None)])
                    (verify_call (resolved_region e None)) = Inl x)"
    by (auto simp: tool_defs params split: option.splits sum.splits prod.splits)
  show "client_built e None
      \<and> invoke (aws e) (calls st) (verify_call (resolved_region e None)) = Inr x
      \<and> invoke (aws e) (calls st @ [verify_call (resolved_region e None)])
            (verify_call (resolved_region e None)) = Inr response
      \<longrightarrow> fst (describe_applications e None None st) =
            Inr [(''Applications'', dict_get response ''Applications'' (PyList []))]
        \<and> issued st (snd (describe_applications e None None st)) =
            [verify_call (resolved_region e None), verify_call (resolved_region e None)]
        \<and> (map_of response ''Applications'' = Some apps
              \<longrightarrow> fst (describe_applications e None None st) = Inr [(''Applications'', apps)])"
    by (simp add: tool_defs params issued_def dict_get_def)
qed

text \<open>An instance: the SDK answers with one application, and the tool returns it.\<close>

theorem describe_applications_no_arguments_witness:
  "fst (describe_applications plain_env None None start) =
     Inr [(''Applications'', PyList [PyDict [(''ApplicationName'', PyStr ''shop'')]])] \<and>
   issued start (snd (describe_applications plain_env None None start)) =
     [verify_call DEFAULT_REGION, verify_call DEFAULT_REGION]"
proof -
  have region: "resolved_region plain_env None = DEFAULT_REGION"
    by (simp add: or_else_def environ_get_def plain_env_def)
  have built: "client_built plain_env None"
    by (simp add: plain_env_def answering_sdk_def)
  have first: "invoke (aws plain_env) (calls start)
      (verify_call (resolved_region plain_env None)) = Inr sample_response"
    by (simp add: plain_env_def answering_sdk_def)
  have second: "invoke (aws plain_env) (calls start @ [verify_call (resolved_region plain_env None)])
      (verify_call (resolved_region plain_env None)) = Inr sample_response"
    by (simp add: plain_env_def answering_sdk_def)
  have apps: "map_of sample_response ''Applications'' =
      Some (PyList [PyDict [(''ApplicationName'', PyStr ''shop'')]])"
    by (simp add: sample_response_def)
  show ?thesis
    using describe_applications_no_arguments [of start plain_env _ sample_response
        sample_response "PyList [PyDict [(''ApplicationName'', PyStr ''shop'')]]"]
      built first second apps
    unfolding region by blast
qed

text \<open>
  C7. A successful call of \<^verbatim>\<open>describe_environments\<close> returns a dictionary with exactly the
  keys \<^verbatim>\<open>Environments\<close> and \<^verbatim>\<open>NextToken\<close>, read from the response of its
  \<^verbatim>\<open>describe_environments\<close> call: \<^verbatim>\<open>Environments\<close> is the response's entry, or the empty list
  when the response has no such key; \<^verbatim>\<open>NextToken\<close> is the response's entry when present
  (and \<^verbatim>\<open>None\<close> when not).
\<close>

theorem describe_environments_result:
  assumes "fst (describe_environments e an ens eids incl rn st) = Inr d"
  shows "\<exists>response.
           invoke (aws e) (calls st @ [verify_call (resolved_region e rn)])
             \<lparr>call_region = resolved_region e rn, call_op = ''describe_environments'',
              call_params = describe_environments_params an ens eids incl\<rparr> = Inr response \<and>
           map fst d = [''Environments'', ''NextToken''] \<and>
           map_of d ''Environments'' =
             Some (case map_of response ''Environments'' of Some v \<Rightarrow> v | None \<Rightarrow> PyList []) \<and>
           map_of d ''NextToken'' =
             Some (case map_of response ''NextToken'' of Some t \<Rightarrow> t | None \<Rightarrow> PyNone)"
  using assms
  by (auto simp: tool_defs dict_get_def split: option.splits sum.splits prod.splits)

text \<open>An instance: a response with one environment and a token.\<close>

theorem describe_environments_result_witness:
  "fst (describe_environments plain_env (Some ''shop'') None None False None start) =
     Inr [(''Environments'', PyList [PyDict [(''EnvironmentName'', PyStr ''prod'')]]),
          (''NextToken'', PyStr ''t1'')] \<and>
   (\<exists>response.
      invoke (aws plain_env) (calls start @ [verify_call (resolved_region plain_env None)])
        \<lparr>call_region = resolved_region plain_env None, call_op = ''describe_environments'',
         call_params = describe_environments_params (Some ''shop'') None None False\<rparr>
        = Inr response \<and>
      map_of [(''Environments'', PyList [PyDict [(''EnvironmentName'', PyStr ''prod'')]]),
              (''NextToken'', PyStr ''t1'')] ''Environments'' =
        Some (case map_of response ''Environments'' of Some v \<Rightarrow> v | None \<Rightarrow> PyList []))"
proof -
  have result: "fst (describe_environments plain_env (Some ''shop'') None None False None start) =
     Inr [(''Environments'', PyList [PyDict [(''EnvironmentName'', PyStr ''prod'')]]),
          (''NextToken'', PyStr ''t1'')]"
    by (simp add: tool_defs dict_get_def plain_env_def answering_sdk_def sample_response_def)
  show ?thesis
    using describe_environments_result [OF result] result by blast
qed

text \<open>
  C9, as stated: every invocation of any of the four tools contacts AWS during client
  construction. Not when the SDK fails to build the client: session and client are created
  in the same \<^verbatim>\<open>try\<close> block, before the credential check, and an exception there (here a
  region name the SDK refuses) is translated and raised with no call made.
\<close>

theorem client_not_built_counterexample:
  "calls (snd (get_beanstalk_client strict_env (Some ''bad region'') start)) = [] \<and>
   calls (snd (describe_environments strict_env None None None False (Some ''bad region'')
      start)) = [] \<and>
   calls (snd (describe_applications strict_env None (Some ''bad region'') start)) = [] \<and>
   calls (snd (describe_events strict_env None None None None None None None
      (Some ''bad region'') start)) = [] \<and>
   calls (snd (describe_config_settings strict_env recording_ctx ''shop'' None None
      (Some ''bad region'') start)) = [] \<and>
   fst (describe_applications strict_env None (Some ''bad region'') start) =
     Inl (ClientError ''Provided region_name does not match a supported format.'')"
  by (simp add: tool_defs example_defs)

text \<open>
  C9, amended. \<^verbatim>\<open>get_beanstalk_client\<close> returns a client only after a live
  \<^verbatim>\<open>describe_applications\<close> call has answered. Every tool builds its client first: in every
  invocation in which the SDK builds the client object, the credential check is the first
  outbound call, and when it fails nothing of the tool's own logic has run (no further call,
  no call of \<^verbatim>\<open>ctx.error\<close>): the failure is logged as an error of client construction and
  raised as the uniform client error. When the SDK fails to build the client object, no call
  is made at all and that failure is raised as the uniform client error in the same way.
\<close>

theorem credential_check_comes_first:
  "(fst (get_beanstalk_client e rn st) = Inr c
      \<longrightarrow> issued st (snd (get_beanstalk_client e rn st)) = [verify_call (client_region c)]
        \<and> (\<exists>x. invoke (aws e) (calls st) (verify_call (client_region c)) = Inr x)) \<and>
   (client_built e rn
      \<longrightarrow> hd (issued st (snd (describe_environments e an ens eids incl rn st)))
            = verify_call (resolved_region e rn)
        \<and> hd (issued st (snd (describe_applications e ans rn st)))
            = verify_call (resolved_region e rn)
        \<and> hd (issued st (snd (describe_events e an en eid stt ent mr sev rn st)))
            = verify_call (resolved_region e rn)
        \<and> hd (issued st (snd (describe_config_settings e ctx app en tn rn st)))
            = verify_call (resolved_region e rn)
        \<and> issued st (snd (describe_environments e an ens eids incl rn st)) \<noteq> []
        \<and> issued st (snd (describe_applications e ans rn st)) \<noteq> []
        \<and> issued st (snd (describe_events e an en eid stt ent mr sev rn st)) \<noteq> []
        \<and> issued st (snd (describe_config_settings e ctx app en tn rn st)) \<noteq> []) \<and>
   (client_built e rn \<and> invoke (aws e) (calls st) (verify_call (resolved_region e rn)) = Inl ex
      \<longrightarrow> fst (get_beanstalk_client e rn st) = Inl (handle_aws_api_error ex)
        \<and> is_ClientError (handle_aws_api_error ex)
        \<and> logged (snd (get_beanstalk_client e rn st)) =
            logged st @ [''Error creating Elastic Beanstalk client: ''
                          @ exc_str (handle_aws_api_error ex)]
        \<and> (\<forall>t \<in> {describe_environments e an ens eids incl rn st,
                    describe_applications e ans rn st,
                    describe_events e an en eid stt ent mr sev rn st,
                    describe_config_settings e ctx app en tn rn st}.
              (\<exists>m. fst t = Inl (ClientError m))
              \<and> issued st (snd t) = [verify_call (resolved_region e rn)]
              \<and> ctx_errors (snd t) = ctx_errors st
              \<and> take (Suc (length (logged st))) (logged (snd t)) =
                  logged st @ [''Error creating Elastic Beanstalk client: ''
                                @ exc_str (handle_aws_api_error ex)])) \<and>
   (create_client (aws e) (resolved_region e rn) USER_AGENT_EXTRA = Some raw
      \<longrightarrow> fst (get_beanstalk_client e rn st) = Inl (handle_aws_api_error raw)
        \<and> issued st (snd (get_beanstalk_client e rn st)) = []
        \<and> logged (snd (get_beanstalk_client e rn st)) =
            logged st @ [''Error creating Elastic Beanstalk client: ''
                          @ exc_str (handle_aws_api_error raw)]
        \<and> (\<forall>t \<in> {describe_environments e an ens eids incl rn st,
                    describe_applications e ans rn st,
                    describe_events e an en eid stt ent mr sev rn st,
                    describe_config_settings e ctx app en tn rn st}.
              fst t = Inl (handle_aws_api_error raw)
              \<and> issued st (snd t) = []
              \<and> ctx_errors (snd t) = ctx_errors st))"
proof (intro conjI impI ballI)
  assume ok: "fst (get_beanstalk_client e rn st) = Inr c"
  then obtain st' where "get_beanstalk_client e rn st = (Inr c, st')"
    by (cases "get_beanstalk_client e rn st") simp
  from get_beanstalk_client_Inr [OF this]
  show "issued st (snd (get_beanstalk_client e rn st)) = [verify_call (client_region c)]"
    and "\<exists>x. invoke (aws e) (calls st) (verify_call (client_region c)) = Inr x"
    using \<open>get_beanstalk_client e rn st = (Inr c, st')\<close> by (auto simp: issued_def)
next
  assume built: "client_built e rn"
  then show "hd (issued st (snd (describe_environments e an ens eids incl rn st)))
        = verify_call (resolved_region e rn)"
    and "hd (issued st (snd (describe_applications e ans rn st)))
        = verify_call (resolved_region e rn)"
    and "hd (issued st (snd (describe_events e an en eid stt ent mr sev rn st)))
        = verify_call (resolved_region e rn)"
    and "hd (issued st (snd (describe_config_settings e ctx app en tn rn st)))
        = verify_call (resolved_region e rn)"
    and "issued st (snd (describe_environments e an ens eids incl rn st)) \<noteq> []"
    and "issued st (snd (describe_applications e ans rn st)) \<noteq> []"
    and "issued st (snd (describe_events e an en eid stt ent mr sev rn st)) \<noteq> []"
    and "issued st (snd (describe_config_settings e ctx app en tn rn st)) \<noteq> []"
    by (simp_all add: tool_defs issued_def split: option.splits sum.splits prod.splits)
next
  assume fails: "client_built e rn
    \<and> invoke (aws e) (calls st) (verify_call (resolved_region e rn)) = Inl ex"
  then show "fst (get_beanstalk_client e rn st) = Inl (handle_aws_api_error ex)"
    and "is_ClientError (handle_aws_api_error ex)"
    and "logged (snd (get_beanstalk_client e rn st)) =
        logged st @ [''Error creating Elastic Beanstalk client: ''
                      @ exc_str (handle_aws_api_error ex)]"
    by (simp_all add: get_beanstalk_client_def client_call_def Let_def handle_aws_api_error_def)
  fix t
  assume "t \<in> {describe_environments e an ens eids incl rn st,
                describe_applications e ans rn st,
                describe_events e an en eid stt ent mr sev rn st,
                describe_config_settings e ctx app en tn rn st}"
  with fails show "\<exists>m. fst t = Inl (ClientError m)"
    and "issued st (snd t) = [verify_call (resolved_region e rn)]"
    and "ctx_errors (snd t) = ctx_errors st"
    and "take (Suc (length (logged st))) (logged (snd t)) =
        logged st @ [''Error creating Elastic Beanstalk client: ''
                      @ exc_str (handle_aws_api_error ex)]"
    by (auto simp: tool_defs issued_def)
next
  assume unbuilt: "create_client (aws e) (resolved_region e rn) USER_AGENT_EXTRA = Some raw"
  then show "fst (get_beanstalk_client e rn st) = Inl (handle_aws_api_error raw)"
    and "issued st (snd (get_beanstalk_client e rn st)) = []"
    and "logged (snd (get_beanstalk_client e rn st)) =
        logged st @ [''Error creating Elastic Beanstalk client: ''
                      @ exc_str (handle_aws_api_error raw)]"
    by (simp_all add: get_beanstalk_client_def client_call_def Let_def handle_aws_api_error_def
          issued_def)
  fix t
  assume "t \<in> {describe_environments e an ens eids incl rn st,
                describe_applications e ans rn st,
                describe_events e an en eid stt ent mr sev rn st,
                describe_config_settings e ctx app en tn rn st}"
  with unbuilt show "fst t = Inl (handle_aws_api_error raw)"
    and "issued st (snd t) = []"
    and "ctx_errors (snd t) = ctx_errors st"
    by (auto simp: tool_defs issued_def)
qed

text \<open>
  Instances: where the SDK answers, the first call of \<^verbatim>\<open>describe_events\<close> is the credential
  check, in the region given; where the SDK refuses the credential check,
  \<^verbatim>\<open>describe_config_settings\<close> without either name stops there, before its own check; where
  the SDK refuses the region name, \<^verbatim>\<open>describe_events\<close> makes no call.
\<close>

theorem credential_check_comes_first_witness:
  "hd (issued start (snd (describe_events plain_env None None None None None None None
        (Some ''us-west-2'') start))) = verify_call ''us-west-2'' \<and>
   issued start (snd (get_beanstalk_client plain_env (Some ''us-west-2'') start)) =
     [verify_call ''us-west-2''] \<and>
   (\<exists>m. fst (describe_config_settings locked_env recording_ctx ''shop'' None None
      (Some ''us-west-2'') start) = Inl (ClientError m)) \<and>
   issued start
     (snd (describe_config_settings locked_env recording_ctx ''shop'' None None
        (Some ''us-west-2'') start))
     = [verify_call ''us-west-2''] \<and>
   ctx_errors
     (snd (describe_config_settings locked_env recording_ctx ''shop'' None None
        (Some ''us-west-2'') start))
     = ctx_errors start \<and>
   issued start (snd (describe_events strict_env None None None None None None None
        (Some ''bad region'') start)) = []"
proof -
  have region: "resolved_region plain_env (Some ''us-west-2'') = ''us-west-2''"
    "resolved_region locked_env (Some ''us-west-2'') = ''us-west-2''"
    "resolved_region strict_env (Some ''bad region'') = ''bad region''"
    by (simp_all add: or_else_def)
  have built: "client_built plain_env (Some ''us-west-2'')"
    by (simp add: plain_env_def answering_sdk_def)
  have client: "fst (get_beanstalk_client plain_env (Some ''us-west-2'') start) =
      Inr \<lparr>client_region = ''us-west-2'', client_user_agent_extra = USER_AGENT_EXTRA\<rparr>"
    by (simp add: get_beanstalk_client_def client_call_def Let_def plain_env_def
          answering_sdk_def or_else_def)
  have refused: "client_built locked_env (Some ''us-west-2'') \<and>
      invoke (aws locked_env) (calls start)
        (verify_call (resolved_region locked_env (Some ''us-west-2''))) =
      Inl (RawException ''botocore.exceptions.NoCredentialsError''
             ''Unable to locate credentials'')"
    by (simp add: locked_env_def refusing_sdk_def)
  have unbuilt: "create_client (aws strict_env) (resolved_region strict_env (Some ''bad region''))
        USER_AGENT_EXTRA =
      Some (RawException ''botocore.exceptions.InvalidRegionError''
              ''Provided region_name does not match a supported format.'')"
    by (simp add: strict_env_def strict_sdk_def or_else_def)
  have answering: "hd (issued start (snd (describe_events plain_env None None None None None
        None None (Some ''us-west-2'') start))) = verify_call ''us-west-2'' \<and>
      issued start (snd (get_beanstalk_client plain_env (Some ''us-west-2'') start)) =
        [verify_call ''us-west-2'']"
    using credential_check_comes_first [where e = plain_env and rn = "Some ''us-west-2''"
        and st = start and an = None and en = None and eid = None and stt = None
        and ent = None and mr = None and sev = None
        and c = "\<lparr>client_region = ''us-west-2'', client_user_agent_extra = USER_AGENT_EXTRA\<rparr>"]
      built client
    unfolding region by simp
  have refusing: "(\<exists>m. fst (describe_config_settings locked_env recording_ctx ''shop'' None None
          (Some ''us-west-2'') start) = Inl (ClientError m)) \<and>
      issued start (snd (describe_config_settings locked_env recording_ctx ''shop'' None None
          (Some ''us-west-2'') start)) = [verify_call ''us-west-2''] \<and>
      ctx_errors (snd (describe_config_settings locked_env recording_ctx ''shop'' None None
          (Some ''us-west-2'') start)) = ctx_errors start"
    using credential_check_comes_first [where e = locked_env and rn = "Some ''us-west-2''"
        and st = start and app = "''shop''" and en = None and tn = None
        and ctx = recording_ctx
        and ex = "RawException ''botocore.exceptions.NoCredentialsError''
                    ''Unable to locate credentials''"]
      refused
    unfolding region by blast
  have unbuildable: "issued start (snd (describe_events strict_env None None None None None
        None None (Some ''bad region'') start)) = []"
    using credential_check_comes_first [where e = strict_env and rn = "Some ''bad region''"
        and st = start and an = None and en = None and eid = None and stt = None
        and ent = None and mr = None and sev = None
        and raw = "RawException ''botocore.exceptions.InvalidRegionError''
                     ''Provided region_name does not match a supported format.''"]
      unbuilt
    by blast
  from answering refusing unbuildable show ?thesis by blast
qed

text \<open>
  C10, as stated: in \<^verbatim>\<open>describe_config_settings\<close>, two empty names trigger the
  missing-parameter error. Not when client construction fails: it comes first, and with an
  SDK that refuses the credential check the error raised is the one of client construction;
  the check of the names is never reached.
\<close>

theorem empty_names_unverified_counterexample:
  "fst (describe_config_settings locked_env recording_ctx ''shop'' (Some []) (Some []) None
      start) = Inl (ClientError ''Unable to locate credentials'') \<and>
   ctx_errors (snd (describe_config_settings locked_env recording_ctx ''shop'' (Some [])
      (Some []) None start)) = []"
  by (simp add: tool_defs example_defs)

text \<open>
  C10, amended. A filter given with a falsy value is treated exactly like an omitted one:
  each tool called with an empty string, an empty list or \<^verbatim>\<open>max_records = 0\<close> in place of an
  omitted filter is the same function of the state, and the key of a falsy filter
  (\<^verbatim>\<open>include_deleted = False\<close> among them) is in no outbound call. A \<^verbatim>\<open>region_name\<close> given as the
  empty string resolves like an omitted one: to the value of \<^verbatim>\<open>AWS_REGION\<close> when it is set, to
  the default otherwise, and the session is created there. In \<^verbatim>\<open>describe_config_settings\<close>,
  two empty names are two omitted names: once client construction has succeeded and the call
  of \<^verbatim>\<open>ctx.error\<close> returns, the missing-parameter error is raised.
\<close>

theorem falsy_like_omitted:
  "describe_environments e (Some []) ens eids incl rn
     = describe_environments e None ens eids incl rn \<and>
   describe_environments e an (Some []) eids incl rn
     = describe_environments e an None eids incl rn \<and>
   describe_environments e an ens (Some []) incl rn
     = describe_environments e an ens None incl rn \<and>
   describe_applications e (Some []) rn = describe_applications e None rn \<and>
   describe_events e (Some []) en eid stt ent mr sev rn
     = describe_events e None en eid stt ent mr sev rn \<and>
   describe_events e an (Some []) eid stt ent mr sev rn
     = describe_events e an None eid stt ent mr sev rn \<and>
   describe_events e an en (Some []) stt ent mr sev rn
     = describe_events e an en None stt ent mr sev rn \<and>
   describe_events e an en eid (Some []) ent mr sev rn
     = describe_events e an en eid None ent mr sev rn \<and>
   describe_events e an en eid stt (Some []) mr sev rn
     = describe_events e an en eid stt None mr sev rn \<and>
   describe_events e an en eid stt ent (Some 0) sev rn
     = describe_events e an en eid stt ent None sev rn \<and>
   describe_events e an en eid stt ent mr (Some []) rn
     = describe_events e an en eid stt ent mr None rn \<and>
   describe_config_settings e ctx app (Some []) tn rn
     = describe_config_settings e ctx app None tn rn \<and>
   describe_config_settings e ctx app en (Some []) rn
     = describe_config_settings e ctx app en None rn \<and>
   get_beanstalk_client e (Some []) = get_beanstalk_client e None \<and>
   describe_config_settings e ctx app (Some []) (Some []) rn
     = describe_config_settings e ctx app None None rn \<and>
   resolved_region e (Some []) = resolved_region e None \<and>
   resolved_region e (Some []) = environ_get (environ e) ''AWS_REGION'' DEFAULT_REGION \<and>
   (environ e ''AWS_REGION'' = Some v
      \<longrightarrow> resolved_region e (Some []) = v
        \<and> sessions (snd (get_beanstalk_client e (Some []) st)) = sessions st @ [v]) \<and>
   (environ e ''AWS_REGION'' = None
      \<longrightarrow> resolved_region e (Some []) = DEFAULT_REGION
        \<and> sessions (snd (get_beanstalk_client e (Some []) st)) = sessions st @ [DEFAULT_REGION]) \<and>
   describe_environments e an ens eids incl (Some [])
     = describe_environments e an ens eids incl None \<and>
   describe_applications e ans (Some []) = describe_applications e ans None \<and>
   describe_events e an en eid stt ent mr sev (Some [])
     = describe_events e an en eid stt ent mr sev None \<and>
   describe_config_settings e ctx app en tn (Some [])
     = describe_config_settings e ctx app en tn None \<and>
   (\<forall>c \<in> set (issued st (snd (describe_environments e an ens eids incl rn st))).
      (\<not> truthy (str_arg an) \<longrightarrow> map_of (call_params c) ''ApplicationName'' = None) \<and>
      (\<not> truthy (list_arg ens) \<longrightarrow> map_of (call_params c) ''EnvironmentNames'' = None) \<and>
      (\<not> truthy (list_arg eids) \<longrightarrow> map_of (call_params c) ''EnvironmentIds'' = None) \<and>
      (\<not> incl \<longrightarrow> map_of (call_params c) ''IncludeDeleted'' = None)) \<and>
   (\<forall>c \<in> set (issued st (snd (describe_applications e ans rn st))).
      (\<not> truthy (list_arg ans) \<longrightarrow> map_of (call_params c) ''ApplicationNames'' = None)) \<and>
   (\<forall>c \<in> set (issued st (snd (describe_events e an en eid stt ent mr sev rn st))).
      (\<not> truthy (str_arg an) \<longrightarrow> map_of (call_params c) ''ApplicationName'' = None) \<and>
      (\<not> truthy (str_arg en) \<longrightarrow> map_of (call_params c) ''EnvironmentName'' = None) \<and>
      (\<not> truthy (str_arg eid) \<longrightarrow> map_of (call_params c) ''EnvironmentId'' = None) \<and>
      (\<not> truthy (str_arg stt) \<longrightarrow> map_of (call_params c) ''StartTime'' = None) \<and>
      (\<not> truthy (str_arg ent) \<longrightarrow> map_of (call_params c) ''EndTime'' = None) \<and>
      (\<not> truthy (int_arg mr) \<longrightarrow> map_of (call_params c) ''MaxRecords'' = None) \<and>
      (\<not> truthy (str_arg sev) \<longrightarrow> map_of (call_params c) ''Severity'' = None)) \<and>
   (\<forall>c \<in> set (issued st (snd (describe_config_settings e ctx app en tn rn st))).
      (\<not> truthy (str_arg en) \<longrightarrow> map_of (call_params c) ''EnvironmentName'' = None) \<and>
      (\<not> truthy (str_arg tn) \<longrightarrow> map_of (call_params c) ''TemplateName'' = None)) \<and>
   (client_built e rn \<and> invoke (aws e) (calls st) (verify_call (resolved_region e rn)) = Inr x
      \<and> error_raises ctx ''Either environment_name or template_name must be provided'' = None
      \<longrightarrow> fst (describe_config_settings e ctx app (Some []) (Some []) rn st) =
            Inl (ClientError ''Either environment_name or template_name must be provided'')
        \<and> issued st (snd (describe_config_settings e ctx app (Some []) (Some []) rn st)) =
            [verify_call (resolved_region e rn)])"
proof -
  have tools: "describe_environments e (Some []) ens eids incl rn
        = describe_environments e None ens eids incl rn"
    "describe_environments e an (Some []) eids incl rn
        = describe_environments e an None eids incl rn"
    "describe_environments e an ens (Some []) incl rn
        = describe_environments e an ens None incl rn"
    "describe_applications e (Some []) rn = describe_applications e None rn"
    "describe_events e (Some []) en eid stt ent mr sev rn
        = describe_events e None en eid stt ent mr sev rn"
    "describe_events e an (Some []) eid stt ent mr sev rn
        = describe_events e an None eid stt ent mr sev rn"
    "describe_events e an en (Some []) stt ent mr sev rn
        = describe_events e an en None stt ent mr sev rn"
    "describe_events e an en eid (Some []) ent mr sev rn
        = describe_events e an en eid None ent mr sev rn"
    "describe_events e an en eid stt (Some []) mr sev rn
        = describe_events e an en eid stt None mr sev rn"
    "describe_events e an en eid stt ent (Some 0) sev rn
        = describe_events e an en eid stt ent None sev rn"
    "describe_events e an en eid stt ent mr (Some []) rn
        = describe_events e an en eid stt ent mr None rn"
    "describe_config_settings e ctx app (Some []) tn rn
        = describe_config_settings e ctx app None tn rn"
    "describe_config_settings e ctx app en (Some []) rn
        = describe_config_settings e ctx app en None rn"
    unfolding describe_environments_def describe_applications_def describe_events_def
      describe_config_settings_def falsy_params falsy_truthy
    by (rule refl)+
  have names: "describe_config_settings e ctx app (Some []) (Some []) rn
        = describe_config_settings e ctx app None None rn"
    unfolding describe_config_settings_def falsy_params falsy_truthy
    by (rule refl)
  have resolved: "resolved_region e (Some []) = resolved_region e None"
    "resolved_region e (Some []) = environ_get (environ e) ''AWS_REGION'' DEFAULT_REGION"
    by (simp_all add: or_else_def)
  have session: "sessions (snd (get_beanstalk_client e (Some []) st))
      = sessions st @ [resolved_region e (Some [])]"
    by (simp add: get_beanstalk_client_def client_call_def Let_def
          split: option.splits sum.splits prod.splits)
  have variable: "environ e ''AWS_REGION'' = Some v
      \<longrightarrow> resolved_region e (Some []) = v
        \<and> sessions (snd (get_beanstalk_client e (Some []) st)) = sessions st @ [v]"
    unfolding session by (simp add: or_else_def environ_get_def)
  have default: "environ e ''AWS_REGION'' = None
      \<longrightarrow> resolved_region e (Some []) = DEFAULT_REGION
        \<and> sessions (snd (get_beanstalk_client e (Some []) st)) = sessions st @ [DEFAULT_REGION]"
    unfolding session by (simp add: or_else_def environ_get_def)
  have regions: "get_beanstalk_client e (Some []) = get_beanstalk_client e None"
    "describe_environments e an ens eids incl (Some [])
        = describe_environments e an ens eids incl None"
    "describe_applications e ans (Some []) = describe_applications e ans None"
    "describe_events e an en eid stt ent mr sev (Some [])
        = describe_events e an en eid stt ent mr sev None"
    "describe_config_settings e ctx app en tn (Some [])
        = describe_config_settings e ctx app en tn None"
    unfolding describe_environments_def describe_applications_def describe_events_def
      describe_config_settings_def falsy_region
    by (rule refl)+
  have environments: "\<forall>c \<in> set (issued st (snd (describe_environments e an ens eids incl rn st))).
      (\<not> truthy (str_arg an) \<longrightarrow> map_of (call_params c) ''ApplicationName'' = None) \<and>
      (\<not> truthy (list_arg ens) \<longrightarrow> map_of (call_params c) ''EnvironmentNames'' = None) \<and>
      (\<not> truthy (list_arg eids) \<longrightarrow> map_of (call_params c) ''EnvironmentIds'' = None) \<and>
      (\<not> incl \<longrightarrow> map_of (call_params c) ''IncludeDeleted'' = None)"
    using describe_environments_issued [of st e an ens eids incl rn]
    by (auto simp: describe_environments_params_lookup)
  have applications: "\<forall>c \<in> set (issued st (snd (describe_applications e ans rn st))).
      (\<not> truthy (list_arg ans) \<longrightarrow> map_of (call_params c) ''ApplicationNames'' = None)"
    using describe_applications_issued [of st e ans rn]
    by (auto simp: describe_applications_params_lookup)
  have events: "\<forall>c \<in> set (issued st (snd (describe_events e an en eid stt ent mr sev rn st))).
      (\<not> truthy (str_arg an) \<longrightarrow> map_of (call_params c) ''ApplicationName'' = None) \<and>
      (\<not> truthy (str_arg en) \<longrightarrow> map_of (call_params c) ''EnvironmentName'' = None) \<and>
      (\<not> truthy (str_arg eid) \<longrightarrow> map_of (call_params c) ''EnvironmentId'' = None) \<and>
      (\<not> truthy (str_arg stt) \<longrightarrow> map_of (call_params c) ''StartTime'' = None) \<and>
      (\<not> truthy (str_arg ent) \<longrightarrow> map_of (call_params c) ''EndTime'' = None) \<and>
      (\<not> truthy (int_arg mr) \<longrightarrow> map_of (call_params c) ''MaxRecords'' = None) \<and>
      (\<not> truthy (str_arg sev) \<longrightarrow> map_of (call_params c) ''Severity'' = None)"
    using describe_events_issued [of st e an en eid stt ent mr sev rn]
    by (auto simp: describe_events_params_lookup)
  have settings: "\<forall>c \<in> set (issued st (snd (describe_config_settings e ctx app en tn rn st))).
      (\<not> truthy (str_arg en) \<longrightarrow> map_of (call_params c) ''EnvironmentName'' = None) \<and>
      (\<not> truthy (str_arg tn) \<longrightarrow> map_of (call_params c) ''TemplateName'' = None)"
    using describe_config_settings_issued [of st e ctx app en tn rn]
    by (auto simp: describe_config_settings_params_lookup)
  have both: "client_built e rn
      \<and> invoke (aws e) (calls st) (verify_call (resolved_region e rn)) = Inr x
      \<and> error_raises ctx ''Either environment_name or template_name must be provided'' = None
      \<longrightarrow> fst (describe_config_settings e ctx app (Some []) (Some []) rn st) =
            Inl (ClientError ''Either environment_name or template_name must be provided'')
        \<and> issued st (snd (describe_config_settings e ctx app (Some []) (Some []) rn st)) =
            [verify_call (resolved_region e rn)]"
    by (simp add: tool_defs issued_def)
  from tools regions(1) names resolved variable default regions(2-) environments applications
    events settings both
  show ?thesis by (intro conjI)
qed

text \<open>
  An instance: \<^verbatim>\<open>describe_events\<close> with \<^verbatim>\<open>application_name=''\<close> and \<^verbatim>\<open>max_records=0\<close> sends
  only the environment name; with \<^verbatim>\<open>AWS_REGION=eu-central-1\<close> an empty \<^verbatim>\<open>region_name\<close> creates
  the session in \<^verbatim>\<open>eu-central-1\<close>; and \<^verbatim>\<open>describe_config_settings\<close> with two empty names
  raises the missing-parameter error after the credential check.
\<close>

theorem falsy_like_omitted_witness:
  "issued start (snd (describe_events plain_env (Some []) (Some ''prod'') None None None
       (Some 0) None (Some []) start)) =
     [verify_call DEFAULT_REGION,
      \<lparr>call_region = DEFAULT_REGION, call_op = ''describe_events'',
       call_params = [(''EnvironmentName'', PyStr ''prod'')]\<rparr>] \<and>
   sessions (snd (get_beanstalk_client frankfurt_env (Some []) start)) = [''eu-central-1''] \<and>
   fst (describe_config_settings plain_env recording_ctx ''shop'' (Some []) (Some []) None
      start) =
     Inl (ClientError ''Either environment_name or template_name must be provided'')"
proof -
  have region: "resolved_region plain_env None = DEFAULT_REGION"
    by (simp add: or_else_def environ_get_def plain_env_def)
  have answered: "client_built plain_env None \<and>
      invoke (aws plain_env) (calls start) (verify_call (resolved_region plain_env None))
        = Inr sample_response"
    by (simp add: plain_env_def answering_sdk_def)
  have omitted: "issued start (snd (describe_events plain_env None (Some ''prod'') None None
       None None None None start)) =
     [verify_call DEFAULT_REGION,
      \<lparr>call_region = DEFAULT_REGION, call_op = ''describe_events'',
       call_params = [(''EnvironmentName'', PyStr ''prod'')]\<rparr>]"
    by (simp add: tool_defs issued_def example_defs describe_events_params_def str_arg_def
          int_arg_def)
  have same: "describe_events plain_env (Some []) (Some ''prod'') None None None (Some 0) None
        (Some [])
      = describe_events plain_env None (Some ''prod'') None None None None None None"
    using falsy_like_omitted [where e = plain_env and en = "Some ''prod''" and eid = None
        and stt = None and ent = None and mr = "Some 0" and sev = None and rn = "Some []"
        and an = None]
      falsy_like_omitted [where e = plain_env and en = "Some ''prod''" and eid = None
        and stt = None and ent = None and mr = None and sev = None and rn = "Some []"
        and an = None]
    by simp
  have taken: "error_raises recording_ctx
      ''Either environment_name or template_name must be provided'' = None"
    by (simp add: recording_ctx_def)
  have names: "fst (describe_config_settings plain_env recording_ctx ''shop'' (Some [])
      (Some []) None start) =
     Inl (ClientError ''Either environment_name or template_name must be provided'')"
    using falsy_like_omitted [where e = plain_env and rn = None and st = start
        and app = "''shop''" and x = sample_response and ctx = recording_ctx] answered taken
    by blast
  have variable: "environ frankfurt_env ''AWS_REGION'' = Some ''eu-central-1''"
    by (simp add: frankfurt_env_def)
  have empty: "sessions start = []"
    by (simp add: start_def)
  have session: "sessions (snd (get_beanstalk_client frankfurt_env (Some []) start))
      = [''eu-central-1'']"
    using falsy_like_omitted [where e = frankfurt_env and st = start
        and v = "''eu-central-1''"] variable
    unfolding empty append_Nil by blast
  from omitted same session names show ?thesis by simp
qed

text \<open>
  C2. Whatever exception a tool or client construction raises is the uniform client error,
  and a line was logged for it. Every exception of the SDK ends so: raised while the client
  is built, by the credential check, or by the call of the tool itself, it reaches the caller
  of each of the four tools as the client error that \<^verbatim>\<open>handle_aws_api_error\<close> makes of it,
  never as the raw exception.
\<close>

theorem sdk_errors_surface_as_client_error:
  "(\<forall>t \<in> {describe_environments e an ens eids incl rn st,
              describe_applications e ans rn st,
              describe_events e an en eid stt ent mr sev rn st,
              describe_config_settings e ctx app en tn rn st}.
      \<forall>ex. fst t = Inl ex
        \<longrightarrow> is_ClientError ex \<and> length (logged st) < length (logged (snd t))
          \<and> last (logged (snd t)) = exc_str ex) \<and>
   (\<forall>ex. fst (get_beanstalk_client e rn st) = Inl ex
      \<longrightarrow> is_ClientError ex
        \<and> logged (snd (get_beanstalk_client e rn st)) =
            logged st @ [''Error creating Elastic Beanstalk client: '' @ exc_str ex]) \<and>
   (create_client (aws e) (resolved_region e rn) USER_AGENT_EXTRA = Some raw
      \<or> client_built e rn
        \<and> invoke (aws e) (calls st) (verify_call (resolved_region e rn)) = Inl raw
      \<longrightarrow> fst (get_beanstalk_client e rn st) = Inl (handle_aws_api_error raw)
        \<and> (\<forall>t \<in> {describe_environments e an ens eids incl rn st,
                    describe_applications e ans rn st,
                    describe_events e an en eid stt ent mr sev rn st,
                    describe_config_settings e ctx app en tn rn st}.
              fst t = Inl (handle_aws_api_error raw))) \<and>
   (client_built e rn
      \<and> invoke (aws e) (calls st) (verify_call (resolved_region e rn)) = Inr x
      \<longrightarrow> (invoke (aws e) (calls st @ [verify_call (resolved_region e rn)])
              \<lparr>call_region = resolved_region e rn, call_op = ''describe_environments'',
               call_params = describe_environments_params an ens eids incl\<rparr> = Inl raw
            \<longrightarrow> fst (describe_environments e an ens eids incl rn st)
                  = Inl (handle_aws_api_error raw))
        \<and> (invoke (aws e) (calls st @ [verify_call (resolved_region e rn)])
              \<lparr>call_region = resolved_region e rn, call_op = ''describe_applications'',
               call_params = describe_applications_params ans\<rparr> = Inl raw
            \<longrightarrow> fst (describe_applications e ans rn st) = Inl (handle_aws_api_error raw))
        \<and> (invoke (aws e) (calls st @ [verify_call (resolved_region e rn)])
              \<lparr>call_region = resolved_region e rn, call_op = ''describe_events'',
               call_params = describe_events_params an en eid stt ent mr sev\<rparr> = Inl raw
            \<longrightarrow> fst (describe_events e an en eid stt ent mr sev rn st)
                  = Inl (handle_aws_api_error raw))
        \<and> (invoke (aws e) (calls st @ [verify_call (resolved_region e rn)])
              \<lparr>call_region = resolved_region e rn, call_op = ''describe_configuration_settings'',
               call_params = describe_config_settings_params app en tn\<rparr> = Inl raw
            \<longrightarrow> (\<exists>m. fst (describe_config_settings e ctx app en tn rn st) = Inl (ClientError m))
              \<and> (truthy (str_arg en) \<or> truthy (str_arg tn)
                    \<longrightarrow> fst (describe_config_settings e ctx app en tn rn st)
                          = Inl (handle_aws_api_error raw))))"
proof (intro conjI)
  show "\<forall>t \<in> {describe_environments e an ens eids incl rn st,
              describe_applications e ans rn st,
              describe_events e an en eid stt ent mr sev rn st,
              describe_config_settings e ctx app en tn rn st}.
      \<forall>ex. fst t = Inl ex
        \<longrightarrow> is_ClientError ex \<and> length (logged st) < length (logged (snd t))
          \<and> last (logged (snd t)) = exc_str ex"
    by (auto simp: tool_defs split: option.splits sum.splits prod.splits if_splits)
  show "\<forall>ex. fst (get_beanstalk_client e rn st) = Inl ex
      \<longrightarrow> is_ClientError ex
        \<and> logged (snd (get_beanstalk_client e rn st)) =
            logged st @ [''Error creating Elastic Beanstalk client: '' @ exc_str ex]"
    by (auto simp: get_beanstalk_client_def client_call_def Let_def handle_aws_api_error_def
          split: option.splits sum.splits prod.splits)
  show "create_client (aws e) (resolved_region e rn) USER_AGENT_EXTRA = Some raw
      \<or> client_built e rn
        \<and> invoke (aws e) (calls st) (verify_call (resolved_region e rn)) = Inl raw
      \<longrightarrow> fst (get_beanstalk_client e rn st) = Inl (handle_aws_api_error raw)
        \<and> (\<forall>t \<in> {describe_environments e an ens eids incl rn st,
                    describe_applications e ans rn st,
                    describe_events e an en eid stt ent mr sev rn st,
                    describe_config_settings e ctx app en tn rn st}.
              fst t = Inl (handle_aws_api_error raw))"
    by (auto simp: tool_defs)
  show "client_built e rn
      \<and> invoke (aws e) (calls st) (verify_call (resolved_region e rn)) = Inr x
      \<longrightarrow> (invoke (aws e) (calls st @ [verify_call (resolved_region e rn)])
              \<lparr>call_region = resolved_region e rn, call_op = ''describe_environments'',
               call_params = describe_environments_params an ens eids incl\<rparr> = Inl raw
            \<longrightarrow> fst (describe_environments e an ens eids incl rn st)
                  = Inl (handle_aws_api_error raw))
        \<and> (invoke (aws e) (calls st @ [verify_call (resolved_region e rn)])
              \<lparr>call_region = resolved_region e rn, call_op = ''describe_applications'',
               call_params = describe_applications_params ans\<rparr> = Inl raw
            \<longrightarrow> fst (describe_applications e ans rn st) = Inl (handle_aws_api_error raw))
        \<and> (invoke (aws e) (calls st @ [verify_call (resolved_region e rn)])
              \<lparr>call_region = resolved_region e rn, call_op = ''describe_events'',
               call_params = describe_events_params an en eid stt ent mr sev\<rparr> = Inl raw
            \<longrightarrow> fst (describe_events e an en eid stt ent mr sev rn st)
                  = Inl (handle_aws_api_error raw))
        \<and> (invoke (aws e) (calls st @ [verify_call (resolved_region e rn)])
              \<lparr>call_region = resolved_region e rn, call_op = ''describe_configuration_settings'',
               call_params = describe_config_settings_params app en tn\<rparr> = Inl raw
            \<longrightarrow> (\<exists>m. fst (describe_config_settings e ctx app en tn rn st) = Inl (ClientError m))
              \<and> (truthy (str_arg en) \<or> truthy (str_arg tn)
                    \<longrightarrow> fst (describe_config_settings e ctx app en tn rn st)
                          = Inl (handle_aws_api_error raw)))"
    by (auto simp: tool_defs split: option.splits)
qed

text \<open>
  Instances: access denied at the call of \<^verbatim>\<open>describe_events\<close> after a credential check that
  passed, and missing credentials at the credential check itself.
\<close>

theorem sdk_errors_surface_as_client_error_witness:
  "fst (describe_events denied_env None (Some ''prod'') None None None None None None start)
     = Inl (ClientError ''AccessDenied'') \<and>
   logged (snd (describe_events denied_env None (Some ''prod'') None None None None None None
     start)) = [''AccessDenied''] \<and>
   fst (get_beanstalk_client locked_env None start)
     = Inl (ClientError ''Unable to locate credentials'') \<and>
   logged (snd (get_beanstalk_client locked_env None start))
     = [''Error creating Elastic Beanstalk client: Unable to locate credentials''] \<and>
   fst (describe_applications locked_env None None start)
     = Inl (ClientError ''Unable to locate credentials'')"
proof -
  have denied: "client_built denied_env None \<and>
      invoke (aws denied_env) (calls start) (verify_call (resolved_region denied_env None))
        = Inr [] \<and>
      invoke (aws denied_env) (calls start @ [verify_call (resolved_region denied_env None)])
        \<lparr>call_region = resolved_region denied_env None, call_op = ''describe_events'',
         call_params = describe_events_params None (Some ''prod'') None None None None None\<rparr>
        = Inl (RawException ''botocore.exceptions.ClientError'' ''AccessDenied'')"
    by (simp add: denied_env_def denying_sdk_def start_def)
  have events: "fst (describe_events denied_env None (Some ''prod'') None None None None None
        None start) = Inl (ClientError ''AccessDenied'')"
    using sdk_errors_surface_as_client_error [where e = denied_env and rn = None
        and st = start and an = None and en = "Some ''prod''" and eid = None and stt = None
        and ent = None and mr = None and sev = None and x = "[]"
        and raw = "RawException ''botocore.exceptions.ClientError'' ''AccessDenied''"]
      denied
    by (simp add: handle_aws_api_error_def)
  have events_logged: "logged (snd (describe_events denied_env None (Some ''prod'') None None
        None None None None start)) = [''AccessDenied'']"
    by (simp add: tool_defs denied_env_def denying_sdk_def start_def)
  have locked: "client_built locked_env None \<and>
      invoke (aws locked_env) (calls start) (verify_call (resolved_region locked_env None))
        = Inl (RawException ''botocore.exceptions.NoCredentialsError''
                 ''Unable to locate credentials'')"
    by (simp add: locked_env_def refusing_sdk_def)
  have construction: "fst (get_beanstalk_client locked_env None start)
        = Inl (ClientError ''Unable to locate credentials'') \<and>
      fst (describe_applications locked_env None None start)
        = Inl (ClientError ''Unable to locate credentials'')"
    using sdk_errors_surface_as_client_error [where e = locked_env and rn = None
        and st = start and ans = None
        and raw = "RawException ''botocore.exceptions.NoCredentialsError''
                     ''Unable to locate credentials''"]
      locked
    by (simp add: handle_aws_api_error_def)
  have construction_logged: "logged (snd (get_beanstalk_client locked_env None start))
      = [''Error creating Elastic Beanstalk client: Unable to locate credentials'']"
    by (simp add: get_beanstalk_client_def client_call_def Let_def handle_aws_api_error_def
          locked_env_def refusing_sdk_def start_def)
  from events events_logged construction construction_logged show ?thesis by simp
qed

text \<open>
  C8. \<^verbatim>\<open>main\<close> declares exactly one argument, \<^verbatim>\<open>--readonly\<close>, with \<^verbatim>\<open>type=bool\<close> and default
  \<^verbatim>\<open>False\<close>. Without arguments it initialises the read-only mode of the context to \<^verbatim>\<open>False\<close>
  and starts the server. Whenever it gets past the command line, the mode it initialises is
  the parsed value of the namespace, a boolean; every option on that command line named
  \<^verbatim>\<open>--readonly\<close>; and when no token named it, the mode is \<^verbatim>\<open>False\<close>. When the process exits
  over the command line, the context is left as it was. With \<^verbatim>\<open>--readonly VALUE\<close> the mode is
  \<^verbatim>\<open>bool(VALUE)\<close>.
\<close>

theorem entry_point_readonly:
  "map option_string main_parser = [''--readonly''] \<and>
   map arg_type main_parser = [py_bool] \<and>
   map arg_default main_parser = [PyBool False] \<and>
   main [] p = (Inr (), p\<lparr>readonly_mode := Some (PyBool False), mcp_running := True\<rparr>) \<and>
   (fst (main argv p) = Inr ()
      \<longrightarrow> (\<exists>b. parse_args main_parser argv = Inr [(''readonly'', PyBool b)]
              \<and> snd (main argv p) = p\<lparr>readonly_mode := Some (PyBool b), mcp_running := True\<rparr>)
        \<and> (\<forall>t \<in> set argv. is_option main_parser t
              \<longrightarrow> matching main_parser (option_name t) = [Store readonly_argument])
        \<and> ((\<forall>t \<in> set argv.
                matching main_parser (option_name t) \<noteq> [Store readonly_argument])
              \<longrightarrow> readonly_mode (snd (main argv p)) = Some (PyBool False))) \<and>
   (fst (main argv p) \<noteq> Inr () \<longrightarrow> snd (main argv p) = p) \<and>
   (v \<noteq> ''--'' \<and> \<not> is_option main_parser v
      \<longrightarrow> main [''--readonly'', v] p =
            (Inr (), p\<lparr>readonly_mode := Some (PyBool (v \<noteq> [])), mcp_running := True\<rparr>))"
proof (intro conjI)
  show "map option_string main_parser = [''--readonly'']"
    and "map arg_type main_parser = [py_bool]"
    and "map arg_default main_parser = [PyBool False]"
    by (simp_all add: main_parser_eq)
  show "main [] p = (Inr (), p\<lparr>readonly_mode := Some (PyBool False), mcp_running := True\<rparr>)"
    by (simp add: main_def parse_args_main Context_initialize_def mcp_run_def)
  show "fst (main argv p) = Inr ()
      \<longrightarrow> (\<exists>b. parse_args main_parser argv = Inr [(''readonly'', PyBool b)]
              \<and> snd (main argv p) = p\<lparr>readonly_mode := Some (PyBool b), mcp_running := True\<rparr>)
        \<and> (\<forall>t \<in> set argv. is_option main_parser t
              \<longrightarrow> matching main_parser (option_name t) = [Store readonly_argument])
        \<and> ((\<forall>t \<in> set argv.
                matching main_parser (option_name t) \<noteq> [Store readonly_argument])
              \<longrightarrow> readonly_mode (snd (main argv p)) = Some (PyBool False))"
  proof
    assume ran: "fst (main argv p) = Inr ()"
    then obtain ns where parsed: "parse_args main_parser argv = Inr ns"
      by (cases "parse_args main_parser argv") (auto simp: main_def)
    then have "consume main_parser argv [(''readonly'', PyBool False)] False = Inr ns"
      by (simp add: parse_args_main)
    from consume_main [OF this] obtain v'
      where ns: "ns = [(''readonly'', v')]"
        and bool: "v' = PyBool False \<or> (\<exists>s. v' = py_bool s)"
        and absent: "(\<forall>t \<in> set argv.
            matching main_parser (option_name t) \<noteq> [Store readonly_argument])
          \<longrightarrow> v' = PyBool False"
        and options: "\<forall>t \<in> set argv. is_option main_parser t
          \<longrightarrow> matching main_parser (option_name t) = [Store readonly_argument]"
      by blast
    from bool obtain b where b: "v' = PyBool b"
      by (auto simp: py_bool_def)
    have result: "main argv p =
        (Inr (), p\<lparr>readonly_mode := Some (PyBool b), mcp_running := True\<rparr>)"
      by (simp add: main_def parsed ns b Context_initialize_def mcp_run_def)
    from parsed ns b result absent options
    show "(\<exists>b. parse_args main_parser argv = Inr [(''readonly'', PyBool b)]
              \<and> snd (main argv p) = p\<lparr>readonly_mode := Some (PyBool b), mcp_running := True\<rparr>)
        \<and> (\<forall>t \<in> set argv. is_option main_parser t
              \<longrightarrow> matching main_parser (option_name t) = [Store readonly_argument])
        \<and> ((\<forall>t \<in> set argv.
                matching main_parser (option_name t) \<noteq> [Store readonly_argument])
              \<longrightarrow> readonly_mode (snd (main argv p)) = Some (PyBool False))"
      by auto
  qed
  show "fst (main argv p) \<noteq> Inr () \<longrightarrow> snd (main argv p) = p"
    by (auto simp: main_def Let_def split: sum.splits option.splits)
  show "v \<noteq> ''--'' \<and> \<not> is_option main_parser v
      \<longrightarrow> main [''--readonly'', v] p =
            (Inr (), p\<lparr>readonly_mode := Some (PyBool (v \<noteq> [])), mcp_running := True\<rparr>)"
    by (simp add: main_def parse_args_main readonly_option readonly_dest py_bool_def
          Context_initialize_def mcp_run_def)
qed

text \<open>
  Instances: no arguments, and \<^verbatim>\<open>--readonly true\<close>.
\<close>

theorem entry_point_readonly_witness:
  "main [] idle = (Inr (), \<lparr>readonly_mode = Some (PyBool False), mcp_running = True\<rparr>) \<and>
   main [''--readonly'', ''true''] idle =
     (Inr (), \<lparr>readonly_mode = Some (PyBool True), mcp_running = True\<rparr>) \<and>
   parse_args main_parser [''--readonly'', ''true''] = Inr [(''readonly'', PyBool True)]"
proof -
  have "value": "''true'' \<noteq> ''--'' \<and> \<not> is_option main_parser ''true''"
    by (simp add: is_option_def)
  have flag: "main [''--readonly'', ''true''] idle =
      (Inr (), \<lparr>readonly_mode = Some (PyBool True), mcp_running = True\<rparr>)"
    using entry_point_readonly [where p = idle and argv = "[]" and v = "''true''"] "value"
    by (simp add: idle_def)
  then have ran: "fst (main [''--readonly'', ''true''] idle) = Inr ()"
    by simp
  have none: "main [] idle = (Inr (), \<lparr>readonly_mode = Some (PyBool False), mcp_running = True\<rparr>)"
    using entry_point_readonly [where p = idle and argv = "[]" and v = "''true''"]
    by (simp add: idle_def)
  from entry_point_readonly [where p = idle and argv = "[''--readonly'', ''true'']"
      and v = "''true''"] ran flag
  have "parse_args main_parser [''--readonly'', ''true''] = Inr [(''readonly'', PyBool True)]"
    by (auto simp: idle_def)
  with none flag show ?thesis by simp
qed

end
